theory Spec2Isabelle
  imports Complex_Main "HOL-Library.Char_ord" "HOL-Library.List_Lexorder"
    "HOL-Library.Product_Lexorder"
begin

section \<open>Exceptions\<close>

text \<open>
  The exceptions that the database access layer raises, catches or passes on, one
  constructor per Python class, each with its message.
\<close>

text \<open>
  Modelled from the spec: the class \<open>InvalidGeneratedCode\<close> of
  \<open>utils/code_execution.py\<close> is not among the sources. It is the error that the spec
  calls \<open>QueryError\<close>, carrying the offending query text and the underlying cause. Its
  constructor here has the message, what the call site passes as \<open>code=\<close> and as
  \<open>exception=\<close> (\<open>None\<close> when the call site leaves the keyword out), and the cause
  set by \<open>raise ... from e\<close>.
\<close>

datatype exn =
    ValueError string
  | ValidationError string
  | JSONDecodeError string
  | FileNotFoundError string
  | ImportError string
  | KeyError string
  | IndexError string
  | RuntimeError string
  | TypeError string
  | UnboundLocalError string
  | PytdsError string
  | InterfaceError string
  | OperationalError string
  | ProgrammingError string
  | SnowflakeProgrammingError string
  | OtherException string
  | InvalidGeneratedCode string "string option" "exn option" "exn option"

text \<open>\<open>str(e)\<close>: the message of an exception.\<close>

fun str_exn :: "exn \<Rightarrow> string" where
  "str_exn (ValueError m) = m"
| "str_exn (ValidationError m) = m"
| "str_exn (JSONDecodeError m) = m"
| "str_exn (FileNotFoundError m) = m"
| "str_exn (ImportError m) = m"
| "str_exn (KeyError m) = m"
| "str_exn (IndexError m) = m"
| "str_exn (RuntimeError m) = m"
| "str_exn (TypeError m) = m"
| "str_exn (UnboundLocalError m) = m"
| "str_exn (PytdsError m) = m"
| "str_exn (InterfaceError m) = m"
| "str_exn (OperationalError m) = m"
| "str_exn (ProgrammingError m) = m"
| "str_exn (SnowflakeProgrammingError m) = m"
| "str_exn (OtherException m) = m"
| "str_exn (InvalidGeneratedCode m c e f) = m"

text \<open>
  \<open>except ValueError\<close>: pydantic's \<open>ValidationError\<close> and \<open>json.JSONDecodeError\<close> are
  subclasses of \<open>ValueError\<close>.
\<close>

fun is_ValueError :: "exn \<Rightarrow> bool" where
  "is_ValueError (ValueError m) = True"
| "is_ValueError (ValidationError m) = True"
| "is_ValueError (JSONDecodeError m) = True"
| "is_ValueError e = False"

fun is_ValidationError :: "exn \<Rightarrow> bool" where
  "is_ValidationError (ValidationError m) = True"
| "is_ValidationError e = False"

fun is_FileNotFoundError :: "exn \<Rightarrow> bool" where
  "is_FileNotFoundError (FileNotFoundError m) = True"
| "is_FileNotFoundError e = False"

fun is_ImportError :: "exn \<Rightarrow> bool" where
  "is_ImportError (ImportError m) = True"
| "is_ImportError e = False"

text \<open>
  \<open>except pytds.Error\<close>: the driver's errors. \<open>OperationalError\<close> and
  \<open>ProgrammingError\<close> are database errors, \<open>InterfaceError\<close> is an error of the
  driver itself; all of them derive from \<open>pytds.Error\<close>.
\<close>

fun is_pytds_Error :: "exn \<Rightarrow> bool" where
  "is_pytds_Error (PytdsError m) = True"
| "is_pytds_Error (InterfaceError m) = True"
| "is_pytds_Error (OperationalError m) = True"
| "is_pytds_Error (ProgrammingError m) = True"
| "is_pytds_Error e = False"

fun is_SnowflakeProgrammingError :: "exn \<Rightarrow> bool" where
  "is_SnowflakeProgrammingError (SnowflakeProgrammingError m) = True"
| "is_SnowflakeProgrammingError e = False"

fun is_InvalidGeneratedCode :: "exn \<Rightarrow> bool" where
  "is_InvalidGeneratedCode (InvalidGeneratedCode m c e f) = True"
| "is_InvalidGeneratedCode e = False"

section \<open>Retry policy\<close>

text \<open>
  \<open>retry_on_transient_error\<close> of \<open>utils/database_helpers.py\<close>. The default of
  \<open>transient_errors\<close> is \<open>(pytds.OperationalError, pytds.InterfaceError)\<close> when the
  driver could be imported and the empty tuple otherwise; \<open>except () as e\<close> catches
  nothing.
\<close>

fun default_transient_errors :: "bool \<Rightarrow> exn \<Rightarrow> bool" where
  "default_transient_errors HAS_PYTDS (OperationalError m) = HAS_PYTDS"
| "default_transient_errors HAS_PYTDS (InterfaceError m) = HAS_PYTDS"
| "default_transient_errors HAS_PYTDS e = False"

text \<open>
  The wrapped operation acts on a state of type \<open>'s\<close> (the cursor, the server, the
  network) and either raises or returns. What a run of the wrapper leaves behind: the
  state after the last invocation, the number of invocations of the operation, and the
  arguments of \<open>time.sleep\<close> in order. Delays are Python floats; they are modelled as
  rationals, and no property below depends on their arithmetic.
\<close>

record 's retry_run =
  rr_state :: 's
  rr_calls :: nat
  rr_slept :: "rat list"

text \<open>
  The body of \<open>wrapper\<close>: the \<open>for attempt in range(max_attempts)\<close> loop over the
  remaining attempt numbers, with the locals \<open>delay\<close> and \<open>last_exception\<close>, followed
  by the code after the loop.
\<close>

fun retry_loop ::
  "int \<Rightarrow> rat \<Rightarrow> (exn \<Rightarrow> bool) \<Rightarrow> ('s \<Rightarrow> (exn + 'a) \<times> 's) \<Rightarrow>
   nat list \<Rightarrow> rat \<Rightarrow> exn option \<Rightarrow> 's retry_run \<Rightarrow> (exn + 'a) \<times> 's retry_run" where
  "retry_loop max_attempts backoff_factor transient_errors func [] delay last_exception r =
     (case last_exception of
        Some e \<Rightarrow> (Inl e, r)
      | None \<Rightarrow> (Inl (RuntimeError ''Unexpected error in retry logic''), r))"
| "retry_loop max_attempts backoff_factor transient_errors func (attempt # rest) delay
     last_exception r =
     (case func (rr_state r) of
        (Inr v, s') \<Rightarrow> (Inr v, r\<lparr>rr_state := s', rr_calls := Suc (rr_calls r)\<rparr>)
      | (Inl e, s') \<Rightarrow>
          (let r' = r\<lparr>rr_state := s', rr_calls := Suc (rr_calls r)\<rparr> in
           if transient_errors e then
             (if int attempt < max_attempts - 1
              then retry_loop max_attempts backoff_factor transient_errors func rest
                     (delay * backoff_factor) (Some e)
                     (r'\<lparr>rr_slept := rr_slept r' @ [delay]\<rparr>)
              else retry_loop max_attempts backoff_factor transient_errors func rest
                     delay (Some e) r')
           else (Inl e, r')))"

definition retry_on_transient_error ::
  "int \<Rightarrow> rat \<Rightarrow> rat \<Rightarrow> (exn \<Rightarrow> bool) \<Rightarrow> ('s \<Rightarrow> (exn + 'a) \<times> 's) \<Rightarrow>
   's \<Rightarrow> (exn + 'a) \<times> 's retry_run" where
  "retry_on_transient_error max_attempts initial_delay backoff_factor transient_errors func s =
     retry_loop max_attempts backoff_factor transient_errors func
       [0 ..< nat max_attempts] initial_delay None
       \<lparr>rr_state = s, rr_calls = 0, rr_slept = []\<rparr>"

text \<open>Two operations to run the policy on: one that always fails with a dropped
  connection, one that always fails with a rejected statement. The state counts the
  invocations.\<close>

definition always_dropped :: "nat \<Rightarrow> (exn + unit) \<times> nat" where
  "always_dropped n = (Inl (OperationalError (replicate n CHR ''x'')), Suc n)"

definition always_rejected :: "nat \<Rightarrow> (exn + unit) \<times> nat" where
  "always_rejected n = (Inl (ProgrammingError (replicate n CHR ''x'')), Suc n)"

section \<open>Credentials\<close>

text \<open>
  \<open>SQLServerCredentials\<close> of \<open>utils/credentials.py\<close>. A character of a Python string
  is a \<open>char\<close> here. \<open>str.isalnum\<close> is a table of the Python runtime, not of this
  repository: it is the parameter \<open>isalnum\<close>.
\<close>

definition validate_schema_name :: "(char \<Rightarrow> bool) \<Rightarrow> string \<Rightarrow> exn + string" where
  "validate_schema_name isalnum v =
     (if v = [] then Inl (ValueError ''Schema name cannot be empty'')
      else if \<not> list_all (\<lambda>c. isalnum c \<or> c \<in> set [CHR ''_'', CHR ''.'']) v
      then Inl (ValueError
        ''Schema name can only contain alphanumeric characters, underscores, and dots'')
      else Inr v)"

record SQLServerCredentials =
  host :: string
  port :: int
  user :: string
  password :: string
  database :: string
  db_schema :: string
  driver :: string
  trust_server_certificate :: bool
  encrypt :: bool
  connection_timeout :: int

text \<open>
  What the settings sources (environment variables, runtime parameter payloads) hold
  for each field once the aliases are resolved: \<open>None\<close> when no source sets the field.
\<close>

record SQLServerSettings =
  s_host :: "string option"
  s_port :: "int option"
  s_user :: "string option"
  s_password :: "string option"
  s_database :: "string option"
  s_db_schema :: "string option"
  s_driver :: "string option"
  s_trust_server_certificate :: "bool option"
  s_encrypt :: "bool option"
  s_connection_timeout :: "int option"

text \<open>
  Construction of the credentials: required fields must be present, \<open>port\<close> is within
  1 to 65535 (default 1433), \<open>connection_timeout\<close> within 1 to 300 (default 30), and the
  field validator of \<open>db_schema\<close> runs on the value; pydantic reports a \<open>ValueError\<close>
  of a validator as a \<open>ValidationError\<close>.
\<close>

definition SQLServerCredentials_init ::
  "(char \<Rightarrow> bool) \<Rightarrow> SQLServerSettings \<Rightarrow> exn + SQLServerCredentials" where
  "SQLServerCredentials_init isalnum s =
     (case (s_host s, s_user s, s_password s, s_database s, s_db_schema s) of
        (Some h, Some u, Some p, Some d, Some sch) \<Rightarrow>
          (let prt = (case s_port s of None \<Rightarrow> 1433 | Some n \<Rightarrow> n);
               cto = (case s_connection_timeout s of None \<Rightarrow> 30 | Some n \<Rightarrow> n)
           in if \<not> (1 \<le> prt \<and> prt \<le> 65535) then Inl (ValidationError ''port'')
              else if \<not> (1 \<le> cto \<and> cto \<le> 300)
              then Inl (ValidationError ''connection_timeout'')
              else (case validate_schema_name isalnum sch of
                      Inl e \<Rightarrow> Inl (ValidationError (str_exn e))
                    | Inr v \<Rightarrow> Inr
                        \<lparr>host = h, port = prt, user = u, password = p, database = d,
                         db_schema = v,
                         driver = (case s_driver s of
                                     None \<Rightarrow> ''ODBC Driver 18 for SQL Server''
                                   | Some x \<Rightarrow> x),
                         trust_server_certificate =
                           (case s_trust_server_certificate s of
                              None \<Rightarrow> False | Some b \<Rightarrow> b),
                         encrypt = (case s_encrypt s of None \<Rightarrow> True | Some b \<Rightarrow> b),
                         connection_timeout = cto\<rparr>))
      | _ \<Rightarrow> Inl (ValidationError ''Field required''))"

text \<open>\<open>SQLServerCredentials.is_configured\<close>: every listed field is truthy.\<close>

definition sqlserver_is_configured :: "SQLServerCredentials \<Rightarrow> bool" where
  "sqlserver_is_configured c \<longleftrightarrow>
     host c \<noteq> [] \<and> port c \<noteq> 0 \<and> user c \<noteq> [] \<and> password c \<noteq> [] \<and>
     database c \<noteq> [] \<and> db_schema c \<noteq> []"

text \<open>A classification of the ASCII characters, to run the validator on.\<close>

definition ascii_isalnum :: "char \<Rightarrow> bool" where
  "ascii_isalnum c \<longleftrightarrow>
     (let n = of_char c :: nat
      in (48 \<le> n \<and> n \<le> 57) \<or> (65 \<le> n \<and> n \<le> 90) \<or> (97 \<le> n \<and> n \<le> 122))"

definition demo_settings :: SQLServerSettings where
  "demo_settings =
     \<lparr>s_host = Some ''db.example.org'', s_port = None, s_user = Some ''reader'',
      s_password = Some ''secret'', s_database = Some ''sales'',
      s_db_schema = Some ''dbo.v_1'', s_driver = None,
      s_trust_server_certificate = None, s_encrypt = None,
      s_connection_timeout = None\<rparr>"

section \<open>Application configuration\<close>

text \<open>
  \<open>load_app_infra\<close> of \<open>utils/database_helpers.py\<close> and \<open>AppInfra\<close> of
  \<open>utils/schema.py\<close>. A JSON document is kept as far as the two fields need it: an
  object with its members, a string, or any other value.
\<close>

datatype json = JObject "(string \<times> json) list" | JString string | JOther

record AppInfra =
  infra_llm :: string
  infra_database :: string

definition DatabaseConnectionType :: "string list" where
  "DatabaseConnectionType =
     [''snowflake'', ''bigquery'', ''sap'', ''sqlserver'', ''no_database'']"

text \<open>
  \<open>AppInfra(**obj)\<close>: unpacking anything but a mapping is a \<open>TypeError\<close>; a missing
  field, a field that is no string, or a database outside the literal type is a
  \<open>ValidationError\<close>; other members are ignored.
\<close>

definition AppInfra_init :: "json \<Rightarrow> exn + AppInfra" where
  "AppInfra_init obj =
     (case obj of
        JObject kvs \<Rightarrow>
          (case (map_of kvs ''llm'', map_of kvs ''database'') of
             (Some (JString l), Some (JString d)) \<Rightarrow>
               (if d \<in> set DatabaseConnectionType
                then Inr \<lparr>infra_llm = l, infra_database = d\<rparr>
                else Inl (ValidationError ''database''))
           | _ \<Rightarrow> Inl (ValidationError ''AppInfra''))
      | _ \<Rightarrow> Inl (TypeError ''argument after ** must be a mapping''))"

text \<open>
  One candidate: \<open>open(path)\<close>, \<open>json.load\<close>, \<open>AppInfra(**...)\<close>. \<open>files\<close> maps a path
  to the text of the file there, \<open>None\<close> when there is no such file. \<open>json.load\<close> is the
  standard library's parser, the parameter \<open>json_load\<close>; on malformed text it raises
  \<open>JSONDecodeError\<close>.
\<close>

definition read_app_infra ::
  "(string \<Rightarrow> string option) \<Rightarrow> (string \<Rightarrow> exn + json) \<Rightarrow> string \<Rightarrow> exn + AppInfra" where
  "read_app_infra files json_load path =
     (case files path of
        None \<Rightarrow> Inl (FileNotFoundError path)
      | Some text \<Rightarrow>
          (case json_load text of
             Inl e \<Rightarrow> Inl e
           | Inr obj \<Rightarrow> AppInfra_init obj))"

text \<open>\<open>except (FileNotFoundError, ValidationError)\<close>.\<close>

definition not_found_or_invalid :: "exn \<Rightarrow> bool" where
  "not_found_or_invalid e \<longleftrightarrow> is_FileNotFoundError e \<or> is_ValidationError e"

definition failed_to_read :: "exn \<Rightarrow> exn" where
  "failed_to_read e = ValueError
     (''Failed to read app_infra.json.'' @ [CHR 0x0A] @
      ''If running locally, verify you have selected the correct '' @
      ''stack and that it is active using `pulumi stack output`.'' @ [CHR 0x0A] @
      ''Ensure file is created by running `pulumi up`: '' @ str_exn e)"

definition load_app_infra ::
  "(string \<Rightarrow> string option) \<Rightarrow> (string \<Rightarrow> exn + json) \<Rightarrow> exn + AppInfra" where
  "load_app_infra files json_load =
     (case read_app_infra files json_load ''app_infra.json'' of
        Inr app_infra \<Rightarrow> Inr app_infra
      | Inl e1 \<Rightarrow>
          if not_found_or_invalid e1 then
            (case read_app_infra files json_load ''frontend/app_infra.json'' of
               Inr app_infra \<Rightarrow> Inr app_infra
             | Inl e2 \<Rightarrow>
                 if not_found_or_invalid e2 then
                   (case read_app_infra files json_load ''app_backend/app_infra.json'' of
                      Inr app_infra \<Rightarrow> Inr app_infra
                    | Inl e3 \<Rightarrow>
                        if not_found_or_invalid e3 then Inl (failed_to_read e3)
                        else Inl e3)
                 else Inl e2)
          else Inl e1)"

text \<open>A candidate is passed over when reading it raises one of the two caught errors.\<close>

definition passed_over :: "exn + AppInfra \<Rightarrow> bool" where
  "passed_over r = (case r of Inl e \<Rightarrow> not_found_or_invalid e | Inr a \<Rightarrow> False)"

text \<open>
  A parser for three texts, to run the loader on: a well-formed configuration, a
  well-formed document that selects an unknown database, and anything else, which is
  malformed.
\<close>

definition demo_json_load :: "string \<Rightarrow> exn + json" where
  "demo_json_load text =
     (if text = ''{\"llm\": \"azure\", \"database\": \"sqlserver\"}''
      then Inr (JObject [(''llm'', JString ''azure''), (''database'', JString ''sqlserver'')])
      else if text = ''{\"llm\": \"azure\", \"database\": \"oracle\"}''
      then Inr (JObject [(''llm'', JString ''azure''), (''database'', JString ''oracle'')])
      else Inl (JSONDecodeError ''Expecting value''))"

definition files_broken_first :: "string \<Rightarrow> string option" where
  "files_broken_first path =
     (if path = ''app_infra.json'' then Some ''{\"llm\": ''
      else if path = ''frontend/app_infra.json''
      then Some ''{\"llm\": \"azure\", \"database\": \"sqlserver\"}''
      else None)"

definition files_invalid_first :: "string \<Rightarrow> string option" where
  "files_invalid_first path =
     (if path = ''app_infra.json''
      then Some ''{\"llm\": \"azure\", \"database\": \"oracle\"}''
      else if path = ''app_backend/app_infra.json''
      then Some ''{\"llm\": \"azure\", \"database\": \"sqlserver\"}''
      else None)"

definition files_frontend_only :: "string \<Rightarrow> string option" where
  "files_frontend_only path =
     (if path = ''frontend/app_infra.json''
      then Some ''{\"llm\": \"azure\", \"database\": \"sqlserver\"}''
      else None)"

definition files_none :: "string \<Rightarrow> string option" where
  "files_none path = None"

section \<open>The drivers, the dataset registry and the trace\<close>

text \<open>
  What lies outside the repository: the database drivers (\<open>pytds\<close>,
  \<open>snowflake.connector\<close>, \<open>hdbcli\<close>) and the dataset registry (\<open>AnalystDB\<close>). Their
  state is a value of type \<open>'b\<close>; each call takes it and returns it changed. A
  connection handle is a number. Creating a cursor, executing a statement and fetching
  its rows are one step of the driver, which raises or returns the cursor's description
  (the column names; \<open>None\<close> when the statement has no result set) and the rows.
  Closing a connection or a cursor and writing to the log do not raise. A cell of a row
  is the text of its value, \<open>None\<close> for a null.
\<close>

type_synonym conn = nat

record qresult =
  description :: "string list option"
  rows :: "string option list list"

record dataset =
  ds_name :: string
  ds_columns :: "string list"
  ds_rows :: "string option list list"

record 'b env =
  env_connect :: "'b \<Rightarrow> (exn + conn) \<times> 'b"
  env_execute :: "conn \<Rightarrow> string \<Rightarrow> 'b \<Rightarrow> (exn + qresult) \<times> 'b"
  env_close :: "conn \<Rightarrow> 'b \<Rightarrow> 'b"
  env_register :: "dataset \<Rightarrow> 'b \<Rightarrow> exn option \<times> 'b"

text \<open>
  The trace records what the operators do to the outside: a connection that was
  opened, a connection that was closed, a statement submitted on a connection, a dataset
  that was registered.
\<close>

datatype event = Connected conn | Closed conn | Executed conn string | Registered string

fun is_Closed :: "event \<Rightarrow> bool" where
  "is_Closed (Closed c) = True"
| "is_Closed e = False"

record 'b world =
  backend :: 'b
  trace :: "event list"

definition connect :: "'b env \<Rightarrow> 'b world \<Rightarrow> (exn + conn) \<times> 'b world" where
  "connect env w =
     (case env_connect env (backend w) of
        (Inl e, b) \<Rightarrow> (Inl e, w\<lparr>backend := b\<rparr>)
      | (Inr c, b) \<Rightarrow> (Inr c, w\<lparr>backend := b, trace := trace w @ [Connected c]\<rparr>))"

definition close_conn :: "'b env \<Rightarrow> conn \<Rightarrow> 'b world \<Rightarrow> 'b world" where
  "close_conn env c w =
     w\<lparr>backend := env_close env c (backend w), trace := trace w @ [Closed c]\<rparr>"

definition execute :: "'b env \<Rightarrow> conn \<Rightarrow> string \<Rightarrow> 'b world \<Rightarrow> (exn + qresult) \<times> 'b world" where
  "execute env c query w =
     (case env_execute env c query (backend w) of
        (r, b) \<Rightarrow> (r, w\<lparr>backend := b, trace := trace w @ [Executed c query]\<rparr>))"

definition register_dataset :: "'b env \<Rightarrow> dataset \<Rightarrow> 'b world \<Rightarrow> exn option \<times> 'b world" where
  "register_dataset env ds w =
     (case env_register env ds (backend w) of
        (Some e, b) \<Rightarrow> (Some e, w\<lparr>backend := b\<rparr>)
      | (None, b) \<Rightarrow> (None, w\<lparr>backend := b, trace := trace w @ [Registered (ds_name ds)]\<rparr>))"

text \<open>
  A decorated method: the retry policy around an operation on the world, with the
  default backoff factor 2.0 and the default transient set. Both SQL Server operators
  exist only where \<open>pytds\<close> was imported, so the set is
  \<open>(pytds.OperationalError, pytds.InterfaceError)\<close>. The world after the call is
  the state after the last attempt; the time slept between attempts is not part of it.
\<close>

definition retried ::
  "int \<Rightarrow> rat \<Rightarrow> ('b world \<Rightarrow> (exn + 'a) \<times> 'b world) \<Rightarrow> 'b world \<Rightarrow> (exn + 'a) \<times> 'b world" where
  "retried max_attempts initial_delay func w =
     (case retry_on_transient_error max_attempts initial_delay 2
             (default_transient_errors True) func w of
        (r, run) \<Rightarrow> (r, rr_state run))"

text \<open>
  A backend to run the operators on. Its state counts the connections handed out, and
  the next handle is that count. A statement on a connection listed in \<open>dead\<close> fails
  with a dropped connection; any other statement is answered by \<open>answers\<close>. A dataset
  whose name is listed in \<open>refused\<close> is refused by the registry.
\<close>

definition demo_env ::
  "conn list \<Rightarrow> (string \<Rightarrow> exn + qresult) \<Rightarrow> string list \<Rightarrow> nat env" where
  "demo_env dead answers refused =
     \<lparr>env_connect = (\<lambda>n. (Inr n, Suc n)),
      env_execute = (\<lambda>c query n.
        (if c \<in> set dead then Inl (OperationalError ''connection lost'')
         else answers query, n)),
      env_close = (\<lambda>c n. n),
      env_register = (\<lambda>ds n.
        (if ds_name ds \<in> set refused then Some (OtherException ''registry unavailable'')
         else None, n))\<rparr>"

definition one_row :: "string \<Rightarrow> exn + qresult" where
  "one_row query = Inr \<lparr>description = Some [''c''], rows = [[Some ''1'']]\<rparr>"

definition world0 :: "nat world" where
  "world0 = \<lparr>backend = 0, trace = []\<rparr>"

section \<open>The SQL Server operator and its connection pool\<close>

text \<open>
  \<open>SQLServerOperator\<close> of \<open>utils/database_helpers.py\<close>. The pool is a Python list used
  as a stack: \<open>append\<close> adds at the end, \<open>pop\<close> takes from the end.
\<close>

record SQLServerOperator =
  sso_credentials :: SQLServerCredentials
  sso_default_timeout :: int
  connection_pool :: "conn list"
  max_pool_size :: nat

definition SQLServerOperator_init ::
  "bool \<Rightarrow> SQLServerCredentials \<Rightarrow> int \<Rightarrow> exn + SQLServerOperator" where
  "SQLServerOperator_init HAS_PYTDS credentials default_timeout =
     (if \<not> HAS_PYTDS
      then Inl (ImportError (''SQL Server support requires python-tds package. '' @
        ''Install with: pip install python-tds''))
      else if \<not> sqlserver_is_configured credentials
      then Inl (ValueError ''SQL Server credentials not properly configured'')
      else Inr \<lparr>sso_credentials = credentials, sso_default_timeout = default_timeout,
                connection_pool = [], max_pool_size = 5\<rparr>)"

text \<open>The liveness test of both pool methods: \<open>SELECT 1\<close> on a cursor of the
  connection, any exception meaning that the connection is dead.\<close>

definition probe :: "'b env \<Rightarrow> conn \<Rightarrow> 'b world \<Rightarrow> bool \<times> 'b world" where
  "probe env c w =
     (case execute env c ''SELECT 1'' w of
        (Inl e, w') \<Rightarrow> (False, w')
      | (Inr r, w') \<Rightarrow> (True, w'))"

function get_connection_from_pool ::
  "'b env \<Rightarrow> SQLServerOperator \<Rightarrow> 'b world \<Rightarrow> conn option \<times> SQLServerOperator \<times> 'b world" where
  "get_connection_from_pool env self w =
     (if connection_pool self = [] then (None, self, w)
      else
        (let c = last (connection_pool self);
             self' = self\<lparr>connection_pool := butlast (connection_pool self)\<rparr>
         in case probe env c w of
              (True, w') \<Rightarrow> (Some c, self', w')
            | (False, w') \<Rightarrow> get_connection_from_pool env self' w'))"
  by pat_completeness auto
termination
  by (relation "measure (\<lambda>(env, self, w). length (connection_pool self))") auto

declare get_connection_from_pool.simps [simp del]

definition return_connection_to_pool ::
  "'b env \<Rightarrow> conn \<Rightarrow> SQLServerOperator \<Rightarrow> 'b world \<Rightarrow> SQLServerOperator \<times> 'b world" where
  "return_connection_to_pool env c self w =
     (if length (connection_pool self) < max_pool_size self then
        (case probe env c w of
           (True, w') \<Rightarrow> (self\<lparr>connection_pool := connection_pool self @ [c]\<rparr>, w')
         | (False, w') \<Rightarrow> (self, w'))
      else (self, w))"

definition create_new_connection :: "'b env \<Rightarrow> 'b world \<Rightarrow> (exn + conn) \<times> 'b world" where
  "create_new_connection env w = retried 3 1 (connect env) w"

text \<open>
  \<open>create_connection\<close> is a context manager; the body of the \<open>with\<close> statement is the
  argument \<open>body\<close>, which gets the connection and may itself use the operator. The
  \<open>finally\<close> clause runs whether the body returns or raises.
\<close>

definition sqlserver_create_connection ::
  "'b env \<Rightarrow>
   (conn \<Rightarrow> SQLServerOperator \<Rightarrow> 'b world \<Rightarrow> (exn + 'a) \<times> SQLServerOperator \<times> 'b world) \<Rightarrow>
   SQLServerOperator \<Rightarrow> 'b world \<Rightarrow> (exn + 'a) \<times> SQLServerOperator \<times> 'b world" where
  "sqlserver_create_connection env body self w =
     (if \<not> sqlserver_is_configured (sso_credentials self)
      then (Inl (ValueError ''SQL Server credentials not properly configured''), self, w)
      else
        (case get_connection_from_pool env self w of
           (pooled, self1, w1) \<Rightarrow>
             (case (case pooled of
                      None \<Rightarrow> create_new_connection env w1
                    | Some c \<Rightarrow> (Inr c, w1)) of
                (Inl e, w2) \<Rightarrow> (Inl e, self1, w2)
              | (Inr c, w2) \<Rightarrow>
                  (case body c self1 w2 of
                     (r, self3, w3) \<Rightarrow>
                       (case return_connection_to_pool env c self3 w3 of
                          (self4, w4) \<Rightarrow> (r, self4, w4))))))"

text \<open>
  The life of a pool: connections are taken from it and given back to it, and between
  two calls the outside world may change in any way (a server restarts, a socket
  drops). A run returns what each \<open>Acquire\<close> got.
\<close>

datatype 'b pool_op = Acquire | Release conn | Outside "'b \<Rightarrow> 'b"

fun run_pool_ops ::
  "'b env \<Rightarrow> 'b pool_op list \<Rightarrow> SQLServerOperator \<Rightarrow> 'b world \<Rightarrow>
   conn option list \<times> SQLServerOperator \<times> 'b world" where
  "run_pool_ops env [] self w = ([], self, w)"
| "run_pool_ops env (Acquire # ops) self w =
     (case get_connection_from_pool env self w of
        (got, self', w') \<Rightarrow>
          (case run_pool_ops env ops self' w' of
             (gots, self'', w'') \<Rightarrow> (got # gots, self'', w'')))"
| "run_pool_ops env (Release c # ops) self w =
     (case return_connection_to_pool env c self w of
        (self', w') \<Rightarrow> run_pool_ops env ops self' w')"
| "run_pool_ops env (Outside f # ops) self w =
     run_pool_ops env ops self (w\<lparr>backend := f (backend w)\<rparr>)"

definition demo_credentials :: SQLServerCredentials where
  "demo_credentials =
     \<lparr>host = ''db.example.org'', port = 1433, user = ''reader'', password = ''secret'',
      database = ''sales'', db_schema = ''dbo'', driver = ''ODBC Driver 18 for SQL Server'',
      trust_server_certificate = False, encrypt = True, connection_timeout = 30\<rparr>"

definition demo_operator :: SQLServerOperator where
  "demo_operator =
     \<lparr>sso_credentials = demo_credentials, sso_default_timeout = 300,
      connection_pool = [], max_pool_size = 5\<rparr>"

section \<open>The other credentials\<close>

text \<open>
  \<open>SnowflakeCredentials\<close>, \<open>SAPDatasphereCredentials\<close> and \<open>GoogleCredentialsBQ\<close> of
  \<open>utils/credentials.py\<close>, each with what the settings sources hold for it. A field
  without a default is required: without it the construction fails validation.
\<close>

record SnowflakeCredentials =
  sf_user :: "string option"
  sf_password :: "string option"
  sf_account :: string
  sf_database :: string
  sf_warehouse :: string
  sf_db_schema :: string
  sf_role :: string
  snowflake_key_path :: "string option"

record SnowflakeSettings =
  ss_user :: "string option"
  ss_password :: "string option"
  ss_account :: "string option"
  ss_database :: "string option"
  ss_warehouse :: "string option"
  ss_db_schema :: "string option"
  ss_role :: "string option"
  ss_snowflake_key_path :: "string option"

definition SnowflakeCredentials_init :: "SnowflakeSettings \<Rightarrow> exn + SnowflakeCredentials" where
  "SnowflakeCredentials_init s =
     (case (ss_account s, ss_database s, ss_warehouse s, ss_db_schema s, ss_role s) of
        (Some a, Some d, Some wh, Some sch, Some r) \<Rightarrow>
          Inr \<lparr>sf_user = ss_user s, sf_password = ss_password s, sf_account = a,
               sf_database = d, sf_warehouse = wh, sf_db_schema = sch, sf_role = r,
               snowflake_key_path = ss_snowflake_key_path s\<rparr>
      | _ \<Rightarrow> Inl (ValidationError ''Field required''))"

text \<open>The truth value of an optional string: \<open>None\<close> and the empty string are false.\<close>

fun truthy :: "string option \<Rightarrow> bool" where
  "truthy None = False"
| "truthy (Some x) = (x \<noteq> [])"

definition snowflake_is_configured :: "SnowflakeCredentials \<Rightarrow> bool" where
  "snowflake_is_configured c =
     (let has_basic_config =
            (truthy (sf_user c) \<and> sf_account c \<noteq> [] \<and> sf_warehouse c \<noteq> [] \<and>
             sf_database c \<noteq> [] \<and> sf_db_schema c \<noteq> [] \<and> sf_role c \<noteq> [])
      in if \<not> has_basic_config then False
         else (let has_key_auth = (snowflake_key_path c \<noteq> None);
                   has_password_auth = (sf_password c \<noteq> None)
               in has_key_auth \<or> has_password_auth))"

text \<open>
  \<open>get_private_key\<close> reads and converts the key file; \<open>key_file\<close> is what that yields,
  \<open>None\<close> when the file is missing or cannot be processed.
\<close>

definition get_private_key :: "string option \<Rightarrow> SnowflakeCredentials \<Rightarrow> string option" where
  "get_private_key key_file c = (if \<not> truthy (snowflake_key_path c) then None else key_file)"

record SAPDatasphereCredentials =
  sap_host :: string
  sap_port :: int
  sap_user :: string
  sap_password :: string
  sap_db_schema :: string

record SAPDatasphereSettings =
  sp_host :: "string option"
  sp_port :: "int option"
  sp_user :: "string option"
  sp_password :: "string option"
  sp_db_schema :: "string option"

definition SAPDatasphereCredentials_init ::
  "SAPDatasphereSettings \<Rightarrow> exn + SAPDatasphereCredentials" where
  "SAPDatasphereCredentials_init s =
     (case (sp_host s, sp_user s, sp_password s, sp_db_schema s) of
        (Some h, Some u, Some p, Some sch) \<Rightarrow>
          Inr \<lparr>sap_host = h, sap_port = (case sp_port s of None \<Rightarrow> 443 | Some n \<Rightarrow> n),
               sap_user = u, sap_password = p, sap_db_schema = sch\<rparr>
      | _ \<Rightarrow> Inl (ValidationError ''Field required''))"

definition sap_is_configured :: "SAPDatasphereCredentials \<Rightarrow> bool" where
  "sap_is_configured c \<longleftrightarrow>
     sap_host c \<noteq> [] \<and> sap_port c \<noteq> 0 \<and> sap_user c \<noteq> [] \<and> sap_password c \<noteq> []"

record GoogleCredentialsBQ =
  service_account_key :: "(string \<times> string) list"
  bq_region :: "string option"
  bq_db_schema :: "string option"

record GoogleSettingsBQ =
  bs_service_account_key :: "(string \<times> string) list option"
  bs_region :: "string option"
  bs_db_schema :: "string option"

definition GoogleCredentialsBQ_init :: "GoogleSettingsBQ \<Rightarrow> exn + GoogleCredentialsBQ" where
  "GoogleCredentialsBQ_init s =
     (case bs_service_account_key s of
        None \<Rightarrow> Inl (ValidationError ''Field required'')
      | Some k \<Rightarrow>
          Inr \<lparr>service_account_key = k,
               bq_region = (case bs_region s of None \<Rightarrow> Some ''us-west1'' | Some r \<Rightarrow> Some r),
               bq_db_schema = bs_db_schema s\<rparr>)"

section \<open>The operators and their constructors\<close>

record SnowflakeOperator =
  sfo_credentials :: SnowflakeCredentials
  sfo_default_timeout :: int

definition SnowflakeOperator_init :: "SnowflakeCredentials \<Rightarrow> int \<Rightarrow> exn + SnowflakeOperator" where
  "SnowflakeOperator_init credentials default_timeout =
     (if \<not> snowflake_is_configured credentials
      then Inl (ValueError ''Snowflake credentials not properly configured'')
      else Inr \<lparr>sfo_credentials = credentials, sfo_default_timeout = default_timeout\<rparr>)"

record BigQueryOperator =
  bqo_credentials :: GoogleCredentialsBQ
  bqo_database :: string
  bqo_default_timeout :: int

text \<open>The constructor reads \<open>service_account_key["project_id"]\<close> and tests nothing.\<close>

definition BigQueryOperator_init :: "GoogleCredentialsBQ \<Rightarrow> int \<Rightarrow> exn + BigQueryOperator" where
  "BigQueryOperator_init credentials default_timeout =
     (case map_of (service_account_key credentials) ''project_id'' of
        None \<Rightarrow> Inl (KeyError ''project_id'')
      | Some project \<Rightarrow>
          Inr \<lparr>bqo_credentials = credentials, bqo_database = project,
               bqo_default_timeout = default_timeout\<rparr>)"

record SAPDatasphereOperator =
  sapo_credentials :: SAPDatasphereCredentials
  sapo_default_timeout :: int

definition SAPDatasphereOperator_init ::
  "SAPDatasphereCredentials \<Rightarrow> int \<Rightarrow> exn + SAPDatasphereOperator" where
  "SAPDatasphereOperator_init credentials default_timeout =
     (if \<not> sap_is_configured credentials
      then Inl (ValueError ''SAP Data Sphere credentials not properly configured'')
      else Inr \<lparr>sapo_credentials = credentials, sapo_default_timeout = default_timeout\<rparr>)"

text \<open>
  \<open>SQLServerOperatorPytds\<close> of \<open>utils/database_helpers_pytds.py\<close>. Its constructor
  stores the two arguments; it has no path that raises.
\<close>

record SQLServerOperatorPytds =
  pto_credentials :: SQLServerCredentials
  pto_default_timeout :: int

definition SQLServerOperatorPytds_init ::
  "SQLServerCredentials \<Rightarrow> int \<Rightarrow> exn + SQLServerOperatorPytds" where
  "SQLServerOperatorPytds_init credentials default_timeout =
     Inr \<lparr>pto_credentials = credentials, pto_default_timeout = default_timeout\<rparr>"

datatype operator =
    NoDatabaseOperator
  | Snowflake SnowflakeOperator
  | BigQuery BigQueryOperator
  | SAPDatasphere SAPDatasphereOperator
  | SQLServerPytds SQLServerOperatorPytds
  | SQLServer SQLServerOperator

section \<open>The operator factory\<close>

text \<open>
  \<open>get_database_operator\<close>. The credentials classes read their fields from the
  settings sources, so the factory depends on what the sources hold for each backend,
  on whether the module \<open>database_helpers_pytds\<close> can be imported, and on \<open>HAS_PYTDS\<close>.
  The default timeout of every operator is \<open>_DEFAULT_DB_QUERY_TIMEOUT = 300\<close>.
\<close>

record sources =
  src_bigquery :: GoogleSettingsBQ
  src_snowflake :: SnowflakeSettings
  src_sap :: SAPDatasphereSettings
  src_sqlserver :: SQLServerSettings
  src_pytds_module :: bool
  src_HAS_PYTDS :: bool

text \<open>
  A \<open>try\<close> block whose handler is \<open>except (ValidationError, ValueError)\<close> followed by
  the fall back to the operator without database: a caught error gives that operator,
  any other error leaves the factory.
\<close>

definition or_no_database :: "exn + operator \<Rightarrow> exn + operator" where
  "or_no_database r =
     (case r of
        Inl e \<Rightarrow> if is_ValidationError e \<or> is_ValueError e then Inr NoDatabaseOperator
                 else Inl e
      | Inr op \<Rightarrow> Inr op)"

definition get_database_operator ::
  "(char \<Rightarrow> bool) \<Rightarrow> sources \<Rightarrow> AppInfra \<Rightarrow> exn + operator" where
  "get_database_operator isalnum src app_infra =
     (if infra_database app_infra = ''bigquery'' then
        or_no_database
          (case GoogleCredentialsBQ_init (src_bigquery src) of
             Inl e \<Rightarrow> Inl e
           | Inr credentials \<Rightarrow>
               if service_account_key credentials \<noteq> [] \<and> truthy (bq_db_schema credentials)
               then (case BigQueryOperator_init credentials 300 of
                       Inl e \<Rightarrow> Inl e | Inr op \<Rightarrow> Inr (BigQuery op))
               else Inr NoDatabaseOperator)
      else if infra_database app_infra = ''snowflake'' then
        or_no_database
          (case SnowflakeCredentials_init (src_snowflake src) of
             Inl e \<Rightarrow> Inl e
           | Inr credentials \<Rightarrow>
               if snowflake_is_configured credentials
               then (case SnowflakeOperator_init credentials 300 of
                       Inl e \<Rightarrow> Inl e | Inr op \<Rightarrow> Inr (Snowflake op))
               else Inr NoDatabaseOperator)
      else if infra_database app_infra = ''sap'' then
        or_no_database
          (case SAPDatasphereCredentials_init (src_sap src) of
             Inl e \<Rightarrow> Inl e
           | Inr credentials \<Rightarrow>
               if sap_is_configured credentials
               then (case SAPDatasphereOperator_init credentials 300 of
                       Inl e \<Rightarrow> Inl e | Inr op \<Rightarrow> Inr (SAPDatasphere op))
               else Inr NoDatabaseOperator)
      else if infra_database app_infra = ''sqlserver'' then
        (case (case SQLServerCredentials_init isalnum (src_sqlserver src) of
                 Inl e \<Rightarrow> Inl e
               | Inr credentials \<Rightarrow>
                   if sqlserver_is_configured credentials then
                     (if src_pytds_module src
                      then (case SQLServerOperatorPytds_init credentials 300 of
                              Inl e \<Rightarrow> Inl e | Inr op \<Rightarrow> Inr (SQLServerPytds op))
                      else if \<not> src_HAS_PYTDS src
                      then Inl (ImportError (''SQL Server support requires python-tds package. '' @
                             ''Install with: pip install python-tds''))
                      else (case SQLServerOperator_init (src_HAS_PYTDS src) credentials 300 of
                              Inl e \<Rightarrow> Inl e | Inr op \<Rightarrow> Inr (SQLServer op)))
                   else Inr NoDatabaseOperator) of
           Inl e \<Rightarrow> if is_ValidationError e \<or> is_ValueError e \<or> is_ImportError e
                    then Inr NoDatabaseOperator else Inl e
         | Inr op \<Rightarrow> Inr op)
      else Inr NoDatabaseOperator)"

section \<open>Scoped connections\<close>

text \<open>
  Each \<open>create_connection\<close> is a generator under \<open>@contextmanager\<close>, used as
  \<open>with self.create_connection() as conn: body\<close>. The code before \<open>yield\<close> runs on
  entry. When the body returns, the generator is resumed and the code after \<open>yield\<close>
  runs. When the body raises, the exception is raised inside the generator at the
  \<open>yield\<close>: code after the \<open>yield\<close> runs only if it stands in a \<open>finally\<close> clause.
\<close>

text \<open>\<open>SnowflakeOperator.create_connection\<close>: \<open>connection.close()\<close> follows the
  \<open>yield\<close> with no \<open>try\<close> around it.\<close>

definition snowflake_create_connection ::
  "'b env \<Rightarrow> string option \<Rightarrow> SnowflakeOperator \<Rightarrow>
   (conn \<Rightarrow> 'b world \<Rightarrow> (exn + 'a) \<times> 'b world) \<Rightarrow> 'b world \<Rightarrow> (exn + 'a) \<times> 'b world" where
  "snowflake_create_connection env key_file self body w =
     (if \<not> snowflake_is_configured (sfo_credentials self)
      then (Inl (ValueError ''Snowflake credentials not properly configured''), w)
      else if \<not> truthy (get_private_key key_file (sfo_credentials self)) \<and>
              \<not> truthy (sf_password (sfo_credentials self))
      then (Inl (ValueError ''Neither private key nor password authentication configured''), w)
      else
        (case connect env w of
           (Inl e, w1) \<Rightarrow> (Inl e, w1)
         | (Inr connection, w1) \<Rightarrow>
             (case body connection w1 of
                (Inl e, w2) \<Rightarrow> (Inl e, w2)
              | (Inr v, w2) \<Rightarrow> (Inr v, close_conn env connection w2))))"

text \<open>\<open>SAPDatasphereOperator.create_connection\<close>: connect and \<open>yield\<close> stand in a
  \<open>try\<close> whose \<open>finally\<close> closes the connection. When \<open>dbapi.connect\<close> itself raises,
  the name \<open>connection\<close> is unbound in the \<open>finally\<close> clause.\<close>

definition sap_create_connection ::
  "'b env \<Rightarrow> SAPDatasphereOperator \<Rightarrow>
   (conn \<Rightarrow> 'b world \<Rightarrow> (exn + 'a) \<times> 'b world) \<Rightarrow> 'b world \<Rightarrow> (exn + 'a) \<times> 'b world" where
  "sap_create_connection env self body w =
     (if \<not> sap_is_configured (sapo_credentials self)
      then (Inl (ValueError ''SAP Data Sphere credentials not properly configured''), w)
      else
        (case connect env w of
           (Inl e, w1) \<Rightarrow>
             (Inl (UnboundLocalError
                ''cannot access local variable 'connection' where it is not associated with a value''),
              w1)
         | (Inr connection, w1) \<Rightarrow>
             (case body connection w1 of
                (r, w2) \<Rightarrow> (r, close_conn env connection w2))))"

text \<open>\<open>SQLServerOperatorPytds.create_connection\<close>: the \<open>yield\<close> stands in a \<open>try\<close>
  whose \<open>finally\<close> closes the connection; the outer handler logs and raises again.\<close>

definition pytds_create_connection ::
  "'b env \<Rightarrow> SQLServerOperatorPytds \<Rightarrow>
   (conn \<Rightarrow> 'b world \<Rightarrow> (exn + 'a) \<times> 'b world) \<Rightarrow> 'b world \<Rightarrow> (exn + 'a) \<times> 'b world" where
  "pytds_create_connection env self body w =
     (if \<not> sqlserver_is_configured (pto_credentials self)
      then (Inl (ValueError ''SQL Server credentials not properly configured''), w)
      else
        (case connect env w of
           (Inl e, w1) \<Rightarrow> (Inl e, w1)
         | (Inr connection, w1) \<Rightarrow>
             (case body connection w1 of
                (r, w2) \<Rightarrow> (r, close_conn env connection w2))))"

section \<open>Decimal numerals\<close>

text \<open>The text of an integer in an f-string.\<close>

function str_nat :: "nat \<Rightarrow> string" where
  "str_nat n =
     (if n < 10 then [char_of (48 + n)]
      else str_nat (n div 10) @ [char_of (48 + n mod 10)])"
  by pat_completeness auto
termination
  by (relation "measure id") auto

declare str_nat.simps [simp del]

definition str_int :: "int \<Rightarrow> string" where
  "str_int i = (if i < 0 then CHR ''-'' # str_nat (nat (- i)) else str_nat (nat i))"

section \<open>Queries of the Snowflake operator\<close>

text \<open>
  \<open>SnowflakeOperator.execute_query\<close>. The session timeout is set first, outside the
  inner \<open>try\<close>; a \<open>ProgrammingError\<close> of the query itself is wrapped inside the \<open>with\<close>
  block, and the outer handler wraps whatever leaves the block, that wrapper included.
\<close>

definition snowflake_execute_query ::
  "'b env \<Rightarrow> string option \<Rightarrow> SnowflakeOperator \<Rightarrow> string \<Rightarrow> int option \<Rightarrow> 'b world \<Rightarrow>
   (exn + string option list list) \<times> 'b world" where
  "snowflake_execute_query env key_file self query timeout w =
     (let timeout = (case timeout of None \<Rightarrow> sfo_default_timeout self | Some t \<Rightarrow> t) in
      case snowflake_create_connection env key_file self
             (\<lambda>conn w1.
                case execute env conn
                       (''ALTER SESSION SET STATEMENT_TIMEOUT_IN_SECONDS = '' @ str_int timeout)
                       w1 of
                  (Inl e, w2) \<Rightarrow> (Inl e, w2)
                | (Inr r0, w2) \<Rightarrow>
                    (case execute env conn query w2 of
                       (Inl e, w3) \<Rightarrow>
                         if is_SnowflakeProgrammingError e
                         then (Inl (InvalidGeneratedCode (''Snowflake error: '' @ str_exn e)
                                      (Some query) None None), w3)
                         else (Inl e, w3)
                     | (Inr r, w3) \<Rightarrow> (Inr (rows r), w3)))
             w of
        (Inl e, w') \<Rightarrow>
          (Inl (InvalidGeneratedCode (''Query execution failed: '' @ str_exn e)
                  (Some query) (Some e) None), w')
      | (Inr results, w') \<Rightarrow> (Inr results, w'))"

definition demo_snowflake :: SnowflakeOperator where
  "demo_snowflake =
     \<lparr>sfo_credentials =
        \<lparr>sf_user = Some ''reader'', sf_password = Some ''secret'', sf_account = ''acme'',
         sf_database = ''SALES'', sf_warehouse = ''WH'', sf_db_schema = ''PUBLIC'',
         sf_role = ''ANALYST'', snowflake_key_path = None\<rparr>,
      sfo_default_timeout = 300\<rparr>"

text \<open>A server that knows no table \<open>missing\<close> and answers every other statement.\<close>

definition no_such_table :: "string \<Rightarrow> exn + qresult" where
  "no_such_table query =
     (if query = ''SELECT * FROM missing''
      then Inl (SnowflakeProgrammingError ''Object MISSING does not exist'')
      else one_row query)"

definition unconfigured_settings :: SQLServerSettings where
  "unconfigured_settings = demo_settings\<lparr>s_host := Some []\<rparr>"

definition unconfigured_credentials :: SQLServerCredentials where
  "unconfigured_credentials =
     \<lparr>host = [], port = 1433, user = ''reader'', password = ''secret'',
      database = ''sales'', db_schema = ''dbo.v_1'',
      driver = ''ODBC Driver 18 for SQL Server'',
      trust_server_certificate = False, encrypt = True, connection_timeout = 30\<rparr>"

definition bq_without_schema :: GoogleCredentialsBQ where
  "bq_without_schema =
     \<lparr>service_account_key = [(''project_id'', ''acme-analytics'')],
      bq_region = Some ''us-west1'', bq_db_schema = None\<rparr>"

section \<open>Queries of the SQL Server operators\<close>

text \<open>
  The truth value of \<open>cursor.description\<close>, and the column names read from it
  (\<open>[column[0] for column in cursor.description] if cursor.description else []\<close>).
\<close>

definition has_description :: "qresult \<Rightarrow> bool" where
  "has_description r = (case description r of None \<Rightarrow> False | Some cols \<Rightarrow> cols \<noteq> [])"

definition columns_of :: "qresult \<Rightarrow> string list" where
  "columns_of r = (case description r of None \<Rightarrow> [] | Some cols \<Rightarrow> cols)"

text \<open>A row as a dictionary from column name to cell, \<open>dict(zip(columns, row))\<close>; the
  rows of a \<open>pytds\<close> connection opened with \<open>as_dict=True\<close> have this form.\<close>

type_synonym dict_row = "(string \<times> string option) list"

text \<open>\<open>_execute_query_with_retry\<close> of both operators: at most two attempts, initial
  delay 0.5.\<close>

definition execute_query_with_retry ::
  "'b env \<Rightarrow> conn \<Rightarrow> string \<Rightarrow> 'b world \<Rightarrow> (exn + qresult) \<times> 'b world" where
  "execute_query_with_retry env c query w = retried 2 (1 / 2) (execute env c query) w"

text \<open>
  \<open>SQLServerOperatorPytds.execute_query\<close>. The handler builds
  \<open>InvalidGeneratedCode(f"Failed to execute SQL query: {str(e)}") from e\<close>: a message
  and a cause, and neither \<open>code=\<close> nor \<open>exception=\<close>. The timeout only decides
  whether a warning is logged.
\<close>

definition pytds_execute_query ::
  "'b env \<Rightarrow> SQLServerOperatorPytds \<Rightarrow> string \<Rightarrow> int option \<Rightarrow> 'b world \<Rightarrow>
   (exn + dict_row list) \<times> 'b world" where
  "pytds_execute_query env self query timeout w =
     (case pytds_create_connection env self
             (\<lambda>conn w1.
                case execute_query_with_retry env conn query w1 of
                  (Inl e, w2) \<Rightarrow> (Inl e, w2)
                | (Inr r, w2) \<Rightarrow>
                    (Inr (if has_description r \<and> rows r \<noteq> []
                          then map (zip (columns_of r)) (rows r) else []), w2))
             w of
        (Inl e, w') \<Rightarrow>
          (Inl (InvalidGeneratedCode (''Failed to execute SQL query: '' @ str_exn e)
                  None None (Some e)), w')
      | (Inr results, w') \<Rightarrow> (Inr results, w'))"

text \<open>
  \<open>SQLServerOperator.execute_query\<close>. A driver error of the retried step is wrapped
  with \<open>code=query, exception=e\<close> inside the scope; the outer handlers pass an
  \<open>InvalidGeneratedCode\<close> on and wrap anything else in the same way.
\<close>

definition sqlserver_execute_query ::
  "'b env \<Rightarrow> string \<Rightarrow> int option \<Rightarrow> SQLServerOperator \<Rightarrow> 'b world \<Rightarrow>
   (exn + dict_row list) \<times> SQLServerOperator \<times> 'b world" where
  "sqlserver_execute_query env query timeout self w =
     (case sqlserver_create_connection env
             (\<lambda>conn self1 w1.
                case execute_query_with_retry env conn query w1 of
                  (Inl e, w2) \<Rightarrow>
                    if is_pytds_Error e
                    then (Inl (InvalidGeneratedCode (''SQL Server error: '' @ str_exn e)
                                 (Some query) (Some e) None), self1, w2)
                    else (Inl e, self1, w2)
                | (Inr r, w2) \<Rightarrow> (Inr (map (zip (columns_of r)) (rows r)), self1, w2))
             self w of
        (Inl e, self', w') \<Rightarrow>
          if is_InvalidGeneratedCode e then (Inl e, self', w')
          else (Inl (InvalidGeneratedCode (''Query execution failed: '' @ str_exn e)
                       (Some query) (Some e) None), self', w')
      | (Inr results, self', w') \<Rightarrow> (Inr results, self', w'))"

definition demo_pytds :: SQLServerOperatorPytds where
  "demo_pytds = \<lparr>pto_credentials = demo_credentials, pto_default_timeout = 300\<rparr>"

text \<open>A server that rejects the misspelt statement \<open>SELEC 1\<close> and answers every other
  one.\<close>

definition syntax_checker :: "string \<Rightarrow> exn + qresult" where
  "syntax_checker query =
     (if query = ''SELEC 1''
      then Inl (ProgrammingError ''Incorrect syntax near SELEC'')
      else one_row query)"

section \<open>The table listings\<close>















text \<open>
  What the listing statements ask of the server. \<open>INFORMATION_SCHEMA.TABLES\<close> has one
  row per base table and view, with its schema, name and type. A listing selects the
  rows of one schema whose type is among the given ones and orders them by a key; names
  and types are compared character by character.
\<close>

record table_info =
  ti_schema :: string
  ti_name :: string
  ti_type :: string

definition select_tables ::
  "table_info list \<Rightarrow> string \<Rightarrow> string list \<Rightarrow> (table_info \<Rightarrow> 'k::linorder) \<Rightarrow> table_info list" where
  "select_tables catalog schema types key =
     sort_key key (filter (\<lambda>t. ti_schema t = schema \<and> ti_type t \<in> set types) catalog)"













section \<open>Data extraction\<close>

text \<open>
  \<open>get_data\<close> of the two SQL Server operators. Building a data frame or a dataset
  from rows that the driver returned does not raise. The statement of
  \<open>SQLServerOperator\<close> is written with its line breaks and indentation reduced to
  single blanks.
\<close>

definition pytds_table_query :: "SQLServerCredentials \<Rightarrow> int \<Rightarrow> string \<Rightarrow> string" where
  "pytds_table_query credentials sample_size table =
     ''SELECT TOP '' @ str_int sample_size @ '' * FROM ['' @ db_schema credentials @
     ''].['' @ table @ '']''"

text \<open>\<open>get_table_as_dataframe\<close> returns the records as a data frame (an empty one when
  there are none) or, when \<open>execute_query\<close> raises, an error message.\<close>

definition get_table_as_dataframe ::
  "'b env \<Rightarrow> SQLServerOperatorPytds \<Rightarrow> string \<Rightarrow> int option \<Rightarrow> 'b world \<Rightarrow>
   (string + dict_row list) \<times> 'b world" where
  "get_table_as_dataframe env self query timeout w =
     (case pytds_execute_query env self query timeout w of
        (Inl e, w') \<Rightarrow> (Inl (''Failed to get table as dataframe: '' @ str_exn e), w')
      | (Inr results, w') \<Rightarrow> (Inr results, w'))"

definition dataset_of_records :: "string \<Rightarrow> dict_row list \<Rightarrow> dataset" where
  "dataset_of_records name records =
     \<lparr>ds_name = name,
      ds_columns = (case records of [] \<Rightarrow> [] | r # rs \<Rightarrow> map fst r),
      ds_rows = map (map snd) records\<rparr>"

text \<open>
  The loop of \<open>SQLServerOperatorPytds.get_data\<close> over the remaining tables, with the
  list \<open>names\<close> built so far. \<open>analyst_db\<close> tells whether a registry was passed
  (\<open>if analyst_db:\<close>); the name is appended in either case. Fetching and registering
  stand in one \<open>try\<close> per table, whose handler goes on with the next table.
\<close>

fun pytds_get_data_loop ::
  "'b env \<Rightarrow> SQLServerOperatorPytds \<Rightarrow> bool \<Rightarrow> int \<Rightarrow> int option \<Rightarrow>
   string list \<Rightarrow> string list \<Rightarrow> 'b world \<Rightarrow> string list \<times> 'b world" where
  "pytds_get_data_loop env self analyst_db sample_size timeout [] names w = (names, w)"
| "pytds_get_data_loop env self analyst_db sample_size timeout (table # rest) names w =
     (case get_table_as_dataframe env self
             (pytds_table_query (pto_credentials self) sample_size table) timeout w of
        (Inl message, w1) \<Rightarrow>
          pytds_get_data_loop env self analyst_db sample_size timeout rest names w1
      | (Inr df, w1) \<Rightarrow>
          if df = []
          then pytds_get_data_loop env self analyst_db sample_size timeout rest names w1
          else if analyst_db then
            (case register_dataset env (dataset_of_records table df) w1 of
               (Some e, w2) \<Rightarrow>
                 pytds_get_data_loop env self analyst_db sample_size timeout rest names w2
             | (None, w2) \<Rightarrow>
                 pytds_get_data_loop env self analyst_db sample_size timeout rest
                   (names @ [table]) w2)
          else pytds_get_data_loop env self analyst_db sample_size timeout rest
                 (names @ [table]) w1)"

text \<open>\<open>SQLServerOperatorPytds.get_data\<close> carries no cache decorator: every call runs
  the loop.\<close>

definition pytds_get_data ::
  "'b env \<Rightarrow> SQLServerOperatorPytds \<Rightarrow> string list \<Rightarrow> bool \<Rightarrow> int \<Rightarrow> int option \<Rightarrow>
   'b world \<Rightarrow> string list \<times> 'b world" where
  "pytds_get_data env self table_names analyst_db sample_size timeout w =
     (if table_names = [] then ([], w)
      else pytds_get_data_loop env self analyst_db sample_size timeout table_names [] w)"

definition sqlserver_table_query :: "SQLServerCredentials \<Rightarrow> int \<Rightarrow> string \<Rightarrow> string" where
  "sqlserver_table_query credentials sample_size table =
     ''SELECT TOP '' @ str_int sample_size @ '' * FROM ['' @ database credentials @
     ''].['' @ db_schema credentials @ ''].['' @ table @ '']''"

text \<open>The slice \<open>rows[:sample_size]\<close>; a negative bound counts from the end.\<close>

definition py_take :: "int \<Rightarrow> 'a list \<Rightarrow> 'a list" where
  "py_take n xs = (if 0 \<le> n then take (nat n) xs else take (length xs - nat (- n)) xs)"

text \<open>
  One table of \<open>SQLServerOperator.get_data\<close>: the statement is executed on a cursor
  of the scoped connection, without the retry policy. An exception and a missing
  description both go on with the next table and add no dataset.
\<close>

definition sqlserver_load_table ::
  "'b env \<Rightarrow> SQLServerCredentials \<Rightarrow> conn \<Rightarrow> int \<Rightarrow> string \<Rightarrow> 'b world \<Rightarrow>
   dataset option \<times> 'b world" where
  "sqlserver_load_table env credentials c sample_size table w =
     (case execute env c (sqlserver_table_query credentials sample_size table) w of
        (Inl e, w') \<Rightarrow> (None, w')
      | (Inr r, w') \<Rightarrow>
          if \<not> has_description r then (None, w')
          else (Some \<lparr>ds_name = table, ds_columns = columns_of r,
                       ds_rows = (if sample_size < int (length (rows r))
                                  then py_take sample_size (rows r) else rows r)\<rparr>, w'))"

fun sqlserver_load_tables ::
  "'b env \<Rightarrow> SQLServerCredentials \<Rightarrow> conn \<Rightarrow> int \<Rightarrow> string list \<Rightarrow> dataset list \<Rightarrow>
   'b world \<Rightarrow> dataset list \<times> 'b world" where
  "sqlserver_load_tables env credentials c sample_size [] dataframes w = (dataframes, w)"
| "sqlserver_load_tables env credentials c sample_size (table # rest) dataframes w =
     (case sqlserver_load_table env credentials c sample_size table w of
        (None, w') \<Rightarrow> sqlserver_load_tables env credentials c sample_size rest dataframes w'
      | (Some ds, w') \<Rightarrow>
          sqlserver_load_tables env credentials c sample_size rest (dataframes @ [ds]) w')"

text \<open>The registration loop after the tables were loaded: the first registration that
  raises ends it.\<close>

fun register_all ::
  "'b env \<Rightarrow> dataset list \<Rightarrow> string list \<Rightarrow> 'b world \<Rightarrow> (exn + string list) \<times> 'b world" where
  "register_all env [] names w = (Inr names, w)"
| "register_all env (dataframe # rest) names w =
     (case register_dataset env dataframe w of
        (Some e, w') \<Rightarrow> (Inl e, w')
      | (None, w') \<Rightarrow> register_all env rest (names @ [ds_name dataframe]) w')"

text \<open>The body of \<open>SQLServerOperator.get_data\<close>: whatever leaves the scope of the
  connection is caught by the outer handler, which returns the empty list.\<close>

definition sqlserver_get_data_body ::
  "'b env \<Rightarrow> string list \<Rightarrow> int \<Rightarrow> int option \<Rightarrow> SQLServerOperator \<Rightarrow> 'b world \<Rightarrow>
   string list \<times> SQLServerOperator \<times> 'b world" where
  "sqlserver_get_data_body env table_names sample_size timeout self w =
     (case sqlserver_create_connection env
             (\<lambda>conn self1 w1.
                case sqlserver_load_tables env (sso_credentials self1) conn sample_size
                       table_names [] w1 of
                  (dataframes, w2) \<Rightarrow>
                    (case register_all env dataframes [] w2 of
                       (r, w3) \<Rightarrow> (r, self1, w3)))
             self w of
        (Inl e, self', w') \<Rightarrow> ([], self', w')
      | (Inr names, self', w') \<Rightarrow> (names, self', w'))"

text \<open>
  \<open>SQLServerOperator.get_data\<close> is an \<open>async def\<close> under
  \<open>@functools.lru_cache(maxsize=8)\<close>. Calling it looks the arguments up in the cache
  of the function; on a miss the coroutine function is called, which makes a new
  coroutine object without running anything, and that object is stored. On a hit the
  stored coroutine object is returned again. Awaiting a coroutine object runs the body
  once; awaiting the same object again raises \<open>RuntimeError\<close>. The cache keeps the eight
  most recently used entries. One registry is in use, so the arguments that tell calls
  apart are the table names, the sample size and the timeout.
\<close>

record get_data_args =
  arg_table_names :: "string list"
  arg_sample_size :: int
  arg_timeout :: "int option"

record coroutine =
  co_id :: nat
  co_args :: get_data_args

record get_data_cache =
  cached :: "(get_data_args \<times> coroutine) list"
  created :: nat
  awaited :: "nat list"

definition lru_cache_call ::
  "nat \<Rightarrow> get_data_args \<Rightarrow> get_data_cache \<Rightarrow> coroutine \<times> get_data_cache" where
  "lru_cache_call maxsize args cache =
     (case map_of (cached cache) args of
        Some co \<Rightarrow>
          (co, cache\<lparr>cached := (args, co) # filter (\<lambda>kv. fst kv \<noteq> args) (cached cache)\<rparr>)
      | None \<Rightarrow>
          (let co = \<lparr>co_id = created cache, co_args = args\<rparr>
           in (co, cache\<lparr>cached := take maxsize ((args, co) # cached cache),
                          created := Suc (created cache)\<rparr>)))"

definition await_get_data ::
  "'b env \<Rightarrow> coroutine \<Rightarrow> get_data_cache \<Rightarrow> SQLServerOperator \<Rightarrow> 'b world \<Rightarrow>
   (exn + string list) \<times> get_data_cache \<times> SQLServerOperator \<times> 'b world" where
  "await_get_data env co cache self w =
     (if co_id co \<in> set (awaited cache)
      then (Inl (RuntimeError ''cannot reuse already awaited coroutine''), cache, self, w)
      else
        (case sqlserver_get_data_body env (arg_table_names (co_args co))
                (arg_sample_size (co_args co)) (arg_timeout (co_args co)) self w of
           (names, self', w') \<Rightarrow>
             (Inr names, cache\<lparr>awaited := co_id co # awaited cache\<rparr>, self', w')))"

text \<open>\<open>await operator.get_data(*table_names, analyst_db=..., sample_size=...,
  timeout=...)\<close>.\<close>

definition sqlserver_get_data ::
  "'b env \<Rightarrow> string list \<Rightarrow> int \<Rightarrow> int option \<Rightarrow> get_data_cache \<Rightarrow> SQLServerOperator \<Rightarrow>
   'b world \<Rightarrow> (exn + string list) \<times> get_data_cache \<times> SQLServerOperator \<times> 'b world" where
  "sqlserver_get_data env table_names sample_size timeout cache self w =
     (case lru_cache_call 8
             \<lparr>arg_table_names = table_names, arg_sample_size = sample_size,
              arg_timeout = timeout\<rparr> cache of
        (co, cache') \<Rightarrow> await_get_data env co cache' self w)"

definition empty_cache :: get_data_cache where
  "empty_cache = \<lparr>cached = [], created = 0, awaited = []\<rparr>"

fun is_Registered :: "event \<Rightarrow> bool" where
  "is_Registered (Registered n) = True"
| "is_Registered e = False"

text \<open>
  What the server does with the statement of a table, whatever the connection and the
  state: it answers with a result set, with a result set that has rows, or with neither
  (it raises, or the answer has no description, or no rows).
\<close>

definition answers :: "'b env \<Rightarrow> string \<Rightarrow> bool" where
  "answers env query \<longleftrightarrow>
     (\<forall>c b. \<exists>r b'. env_execute env c query b = (Inr r, b') \<and> has_description r)"





section \<open>Properties of the retry policy\<close>

text \<open>
  C1. With \<open>max_attempts = 3\<close>: when the three invocations of the operation each raise
  an error of the transient set, the operation is invoked exactly three times, the
  wrapper sleeps for the initial delay and then for the delay times the backoff factor,
  and the error raised is that of the third invocation. When the first invocation raises
  an error outside the transient set, the operation is invoked exactly once, nothing is
  slept, and that error is raised.
\<close>

theorem retry_three_attempts:
  "(func s0 = (Inl e1, s1) \<and> transient e1 \<and>
    func s1 = (Inl e2, s2) \<and> transient e2 \<and>
    func s2 = (Inl e3, s3) \<and> transient e3 \<longrightarrow>
      retry_on_transient_error 3 d b transient func s0 =
        (Inl e3, \<lparr>rr_state = s3, rr_calls = 3, rr_slept = [d, d * b]\<rparr>))
   \<and> (func s0 = (Inl e, s') \<and> \<not> transient e \<longrightarrow>
      retry_on_transient_error 3 d b transient func s0 =
        (Inl e, \<lparr>rr_state = s', rr_calls = 1, rr_slept = []\<rparr>))"
proof -
  have three: "[0 ..< 3] = [0, 1, 2::nat]"
    by (simp add: upt_rec)
  show ?thesis
    by (simp add: retry_on_transient_error_def three)
qed

theorem retry_three_attempts_witness:
  "retry_on_transient_error 3 1 2 (default_transient_errors True) always_dropped 0 =
     (Inl (OperationalError ''xx''), \<lparr>rr_state = 3, rr_calls = 3, rr_slept = [1, 2]\<rparr>)
   \<and> retry_on_transient_error 3 1 2 (default_transient_errors True) always_rejected 0 =
     (Inl (ProgrammingError ''''), \<lparr>rr_state = 1, rr_calls = 1, rr_slept = []\<rparr>)"
proof -
  have a: "retry_on_transient_error 3 1 2 (default_transient_errors True) always_dropped 0 =
     (Inl (OperationalError ''xx''), \<lparr>rr_state = 3, rr_calls = 3, rr_slept = [1, 2]\<rparr>)"
    using retry_three_attempts [of always_dropped 0 "OperationalError ''''" 1
        "default_transient_errors True" "OperationalError ''x''" 2
        "OperationalError ''xx''" 3 1 2]
    by (simp add: always_dropped_def numeral_2_eq_2 numeral_3_eq_3)
  have b: "retry_on_transient_error 3 1 2 (default_transient_errors True) always_rejected 0 =
     (Inl (ProgrammingError ''''), \<lparr>rr_state = 1, rr_calls = 1, rr_slept = []\<rparr>)"
    using retry_three_attempts [of always_rejected 0 _ _ "default_transient_errors True"
        _ _ _ _ 1 2 "ProgrammingError ''''" 1]
    by (simp add: always_rejected_def)
  from a b show ?thesis by simp
qed

section \<open>Properties of the credentials\<close>

text \<open>
  C10. The validator of \<open>db_schema\<close> raises for the empty name and for every name with
  a character that is neither alphanumeric nor an underscore nor a dot, and then the
  construction of the credentials fails with a validation error; every credentials
  value that is constructed has a non-empty schema name made of such characters only.
\<close>

theorem schema_name_validated:
  "((v = [] \<or> (\<exists>c \<in> set v. \<not> (isalnum c \<or> c = CHR ''_'' \<or> c = CHR ''.''))) \<longrightarrow>
      (\<exists>m. validate_schema_name isalnum v = Inl (ValueError m)) \<and>
      (s_db_schema s = Some v \<longrightarrow>
         (\<exists>m. SQLServerCredentials_init isalnum s = Inl (ValidationError m))))
   \<and> (SQLServerCredentials_init isalnum s = Inr c \<longrightarrow>
        s_db_schema s = Some (db_schema c) \<and> db_schema c \<noteq> [] \<and>
        (\<forall>ch \<in> set (db_schema c). isalnum ch \<or> ch = CHR ''_'' \<or> ch = CHR ''.''))"
proof -
  have rej: "\<exists>m. validate_schema_name isalnum v = Inl (ValueError m)"
    if "v = [] \<or> (\<exists>c \<in> set v. \<not> (isalnum c \<or> c = CHR ''_'' \<or> c = CHR ''.''))"
    using that by (auto simp: validate_schema_name_def list_all_iff)
  have acc: "w = u \<and> u \<noteq> [] \<and> (\<forall>ch \<in> set u. isalnum ch \<or> ch = CHR ''_'' \<or> ch = CHR ''.'')"
    if "validate_schema_name isalnum u = Inr w" for u w
    using that by (auto simp: validate_schema_name_def list_all_iff split: if_splits)
  have init_rej: "\<exists>m. SQLServerCredentials_init isalnum s = Inl (ValidationError m)"
    if "\<exists>m. validate_schema_name isalnum v = Inl (ValueError m)" "s_db_schema s = Some v"
    using that
    by (auto simp: SQLServerCredentials_init_def Let_def split: option.splits)
  have init_acc: "s_db_schema s = Some (db_schema c) \<and> db_schema c \<noteq> [] \<and>
        (\<forall>ch \<in> set (db_schema c). isalnum ch \<or> ch = CHR ''_'' \<or> ch = CHR ''.'')"
    if "SQLServerCredentials_init isalnum s = Inr c"
  proof -
    from that obtain sch w where sch: "s_db_schema s = Some sch"
      and v: "validate_schema_name isalnum sch = Inr w" and w: "db_schema c = w"
      by (auto simp: SQLServerCredentials_init_def Let_def
          split: option.splits if_splits sum.splits)
    from acc [OF v] sch w show ?thesis by simp
  qed
  from rej init_rej init_acc show ?thesis by blast
qed

theorem schema_name_validated_witness:
  "(\<exists>m. validate_schema_name ascii_isalnum ''a;b'' = Inl (ValueError m)) \<and>
   (\<exists>m. SQLServerCredentials_init ascii_isalnum (demo_settings\<lparr>s_db_schema := Some ''a;b''\<rparr>)
          = Inl (ValidationError m)) \<and>
   (\<exists>c. SQLServerCredentials_init ascii_isalnum demo_settings = Inr c \<and>
        db_schema c = ''dbo.v_1'')"
proof -
  have bad: "\<exists>c \<in> set ''a;b''. \<not> (ascii_isalnum c \<or> c = CHR ''_'' \<or> c = CHR ''.'')"
    by (simp add: ascii_isalnum_def)
  have sch: "s_db_schema (demo_settings\<lparr>s_db_schema := Some ''a;b''\<rparr>) = Some ''a;b''"
    by simp
  obtain c where c: "SQLServerCredentials_init ascii_isalnum demo_settings = Inr c"
    by (simp add: SQLServerCredentials_init_def demo_settings_def validate_schema_name_def
        ascii_isalnum_def)
  have "s_db_schema demo_settings = Some ''dbo.v_1''"
    by (simp add: demo_settings_def)
  with c bad sch
    schema_name_validated [of "''a;b''" ascii_isalnum
      "demo_settings\<lparr>s_db_schema := Some ''a;b''\<rparr>" c]
    schema_name_validated [of "''a;b''" ascii_isalnum demo_settings c]
  show ?thesis by auto
qed

section \<open>Properties of the configuration loader\<close>

text \<open>
  C9, as stated, at a concrete input: the first candidate exists but is malformed
  JSON, the second exists and parses. The loader neither tries the second candidate nor
  succeeds with it: the \<open>JSONDecodeError\<close> of the first leaves \<open>load_app_infra\<close>.
\<close>

theorem load_app_infra_malformed_first:
  "read_app_infra files_broken_first demo_json_load ''frontend/app_infra.json'' =
     Inr \<lparr>infra_llm = ''azure'', infra_database = ''sqlserver''\<rparr>
   \<and> load_app_infra files_broken_first demo_json_load =
     Inl (JSONDecodeError ''Expecting value'')"
  by (simp add: load_app_infra_def read_app_infra_def files_broken_first_def
      demo_json_load_def AppInfra_init_def DatabaseConnectionType_def
      not_found_or_invalid_def)

text \<open>
  C9, amended. The three candidates are read in the order \<open>app_infra.json\<close>,
  \<open>frontend/app_infra.json\<close>, \<open>app_backend/app_infra.json\<close>. A candidate is passed over
  when it is missing or fails the validation of \<open>AppInfra\<close>. The result of the loader is
  the result of the first candidate that is not passed over: its configuration, or the
  error it raises (malformed JSON among them), and no later candidate is read. When all
  three are passed over, the loader raises the descriptive \<open>ValueError\<close> made from the
  error of the third.
\<close>

theorem load_app_infra_first_not_passed_over:
  "(\<not> passed_over (read_app_infra files json_load ''app_infra.json'') \<longrightarrow>
      load_app_infra files json_load = read_app_infra files json_load ''app_infra.json'')
   \<and> (passed_over (read_app_infra files json_load ''app_infra.json'') \<and>
      \<not> passed_over (read_app_infra files json_load ''frontend/app_infra.json'') \<longrightarrow>
      load_app_infra files json_load =
        read_app_infra files json_load ''frontend/app_infra.json'')
   \<and> (passed_over (read_app_infra files json_load ''app_infra.json'') \<and>
      passed_over (read_app_infra files json_load ''frontend/app_infra.json'') \<and>
      \<not> passed_over (read_app_infra files json_load ''app_backend/app_infra.json'') \<longrightarrow>
      load_app_infra files json_load =
        read_app_infra files json_load ''app_backend/app_infra.json'')
   \<and> (passed_over (read_app_infra files json_load ''app_infra.json'') \<and>
      passed_over (read_app_infra files json_load ''frontend/app_infra.json'') \<and>
      passed_over (read_app_infra files json_load ''app_backend/app_infra.json'') \<longrightarrow>
      (\<exists>e. read_app_infra files json_load ''app_backend/app_infra.json'' = Inl e \<and>
           load_app_infra files json_load = Inl (failed_to_read e)))"
  by (auto simp: load_app_infra_def passed_over_def split: sum.splits)

theorem load_app_infra_first_not_passed_over_witness:
  "load_app_infra files_broken_first demo_json_load = Inl (JSONDecodeError ''Expecting value'')
   \<and> load_app_infra files_invalid_first demo_json_load =
       Inr \<lparr>infra_llm = ''azure'', infra_database = ''sqlserver''\<rparr>
   \<and> load_app_infra files_frontend_only demo_json_load =
       Inr \<lparr>infra_llm = ''azure'', infra_database = ''sqlserver''\<rparr>
   \<and> load_app_infra files_none demo_json_load =
       Inl (failed_to_read (FileNotFoundError ''app_backend/app_infra.json''))"
proof -
  have f1: "read_app_infra files_frontend_only demo_json_load ''app_infra.json'' =
      Inl (FileNotFoundError ''app_infra.json'')"
    by (simp add: read_app_infra_def files_frontend_only_def)
  have f2: "read_app_infra files_frontend_only demo_json_load ''frontend/app_infra.json'' =
      Inr \<lparr>infra_llm = ''azure'', infra_database = ''sqlserver''\<rparr>"
    by (simp add: read_app_infra_def files_frontend_only_def demo_json_load_def
        AppInfra_init_def DatabaseConnectionType_def)
  have d: "load_app_infra files_frontend_only demo_json_load =
      Inr \<lparr>infra_llm = ''azure'', infra_database = ''sqlserver''\<rparr>"
    using load_app_infra_first_not_passed_over [of files_frontend_only demo_json_load] f1 f2
    by (simp add: passed_over_def not_found_or_invalid_def)
  have r1: "read_app_infra files_broken_first demo_json_load ''app_infra.json'' =
      Inl (JSONDecodeError ''Expecting value'')"
    by (simp add: read_app_infra_def files_broken_first_def demo_json_load_def)
  have i1: "read_app_infra files_invalid_first demo_json_load ''app_infra.json'' =
      Inl (ValidationError ''database'')"
    by (simp add: read_app_infra_def files_invalid_first_def demo_json_load_def
        AppInfra_init_def DatabaseConnectionType_def)
  have i2: "read_app_infra files_invalid_first demo_json_load ''frontend/app_infra.json'' =
      Inl (FileNotFoundError ''frontend/app_infra.json'')"
    by (simp add: read_app_infra_def files_invalid_first_def)
  have i3: "read_app_infra files_invalid_first demo_json_load ''app_backend/app_infra.json'' =
      Inr \<lparr>infra_llm = ''azure'', infra_database = ''sqlserver''\<rparr>"
    by (simp add: read_app_infra_def files_invalid_first_def demo_json_load_def
        AppInfra_init_def DatabaseConnectionType_def)
  have n: "read_app_infra files_none demo_json_load p = Inl (FileNotFoundError p)" for p
    by (simp add: read_app_infra_def files_none_def)
  have a: "load_app_infra files_broken_first demo_json_load =
      Inl (JSONDecodeError ''Expecting value'')"
    using load_app_infra_first_not_passed_over [of files_broken_first demo_json_load] r1
    by (simp add: passed_over_def not_found_or_invalid_def)
  have b: "load_app_infra files_invalid_first demo_json_load =
      Inr \<lparr>infra_llm = ''azure'', infra_database = ''sqlserver''\<rparr>"
    using load_app_infra_first_not_passed_over [of files_invalid_first demo_json_load] i1 i2 i3
    by (simp add: passed_over_def not_found_or_invalid_def)
  have c: "load_app_infra files_none demo_json_load =
      Inl (failed_to_read (FileNotFoundError ''app_backend/app_infra.json''))"
    using load_app_infra_first_not_passed_over [of files_none demo_json_load] n
    by (simp add: passed_over_def not_found_or_invalid_def)
  from a b c d show ?thesis by simp
qed

section \<open>Properties of the connection pool\<close>

lemma probe_closed:
  "probe env c w = (ok, w') \<Longrightarrow> filter is_Closed (trace w') = filter is_Closed (trace w)"
  by (auto simp: probe_def execute_def split: prod.splits sum.splits)

lemma return_connection_to_pool_pool:
  "connection_pool (fst (return_connection_to_pool env c self w)) =
     (if length (connection_pool self) < max_pool_size self \<and> fst (probe env c w)
      then connection_pool self @ [c] else connection_pool self)"
  by (auto simp: return_connection_to_pool_def split: prod.splits bool.splits)

lemma return_connection_to_pool_max:
  "max_pool_size (fst (return_connection_to_pool env c self w)) = max_pool_size self"
  by (auto simp: return_connection_to_pool_def split: prod.splits bool.splits)

lemma return_connection_to_pool_closed:
  "filter is_Closed (trace (snd (return_connection_to_pool env c self w))) =
     filter is_Closed (trace w)"
  by (auto simp: return_connection_to_pool_def dest: probe_closed split: prod.splits bool.splits)

lemma get_connection_from_pool_props:
  "get_connection_from_pool env self w = (got, self', w') \<Longrightarrow>
     set (connection_pool self') \<subseteq> set (connection_pool self) \<and>
     length (connection_pool self') \<le> length (connection_pool self) \<and>
     max_pool_size self' = max_pool_size self \<and>
     (\<forall>c. got = Some c \<longrightarrow> c \<in> set (connection_pool self)) \<and>
     filter is_Closed (trace w') = filter is_Closed (trace w)"
proof (induction env self w arbitrary: got self' w' rule: get_connection_from_pool.induct)
  case (1 env self w)
  show ?case
  proof (cases "connection_pool self = []")
    case True
    with "1.prems" show ?thesis
      by (simp add: get_connection_from_pool.simps)
  next
    case False
    obtain ok w1 where p: "probe env (last (connection_pool self)) w = (ok, w1)"
      by (cases "probe env (last (connection_pool self)) w")
    show ?thesis
    proof (cases ok)
      case True
      with False p "1.prems" probe_closed [OF p] show ?thesis
        by (auto simp: get_connection_from_pool.simps [of env self w] Let_def
            dest: in_set_butlastD)
    next
      case f: False
      from False p f "1.prems"
      have rec: "get_connection_from_pool env
          (self\<lparr>connection_pool := butlast (connection_pool self)\<rparr>) w1 = (got, self', w')"
        by (simp add: get_connection_from_pool.simps [of env self w] Let_def)
      from "1.IH" [OF False refl refl _ _ rec] p f
      have ih: "set (connection_pool self') \<subseteq> set (butlast (connection_pool self)) \<and>
         length (connection_pool self') \<le> length (butlast (connection_pool self)) \<and>
         max_pool_size self' = max_pool_size self \<and>
         (\<forall>c. got = Some c \<longrightarrow> c \<in> set (butlast (connection_pool self))) \<and>
         filter is_Closed (trace w') = filter is_Closed (trace w1)"
        by simp
      with probe_closed [OF p] show ?thesis
        by (auto dest: in_set_butlastD)
    qed
  qed
qed

lemma run_pool_ops_bound:
  "length (connection_pool self) \<le> max_pool_size self \<Longrightarrow>
   run_pool_ops env ops self w = (gots, self', w') \<Longrightarrow>
   length (connection_pool self') \<le> max_pool_size self' \<and> max_pool_size self' = max_pool_size self"
proof (induction env ops self w arbitrary: gots self' w' rule: run_pool_ops.induct)
  case (1 env self w)
  then show ?case by simp
next
  case (2 env ops self w)
  obtain got self1 w1 where g: "get_connection_from_pool env self w = (got, self1, w1)"
    by (cases "get_connection_from_pool env self w")
  obtain gots1 self2 w2 where r: "run_pool_ops env ops self1 w1 = (gots1, self2, w2)"
    by (cases "run_pool_ops env ops self1 w1")
  from get_connection_from_pool_props [OF g] "2.prems"(1)
  have b: "length (connection_pool self1) \<le> max_pool_size self1" and m: "max_pool_size self1 = max_pool_size self"
    by auto
  from "2.IH" [OF g [symmetric] refl b r] m "2.prems"(2) g r show ?case by simp
next
  case (3 env c ops self w)
  obtain self1 w1 where g: "return_connection_to_pool env c self w = (self1, w1)"
    by (cases "return_connection_to_pool env c self w")
  from return_connection_to_pool_pool [of env c self w] return_connection_to_pool_max [of env c self w]
    g "3.prems"(1)
  have b: "length (connection_pool self1) \<le> max_pool_size self1" and m: "max_pool_size self1 = max_pool_size self"
    by (auto split: if_splits)
  from "3.IH" [OF g [symmetric] b] "3.prems"(2) g m show ?case by simp
next
  case (4 env f ops self w)
  then show ?case by simp
qed

lemma run_pool_ops_absent:
  "c \<notin> set (connection_pool self) \<Longrightarrow> Release c \<notin> set ops \<Longrightarrow>
   run_pool_ops env ops self w = (gots, self', w') \<Longrightarrow>
   Some c \<notin> set gots \<and> c \<notin> set (connection_pool self')"
proof (induction env ops self w arbitrary: gots self' w' rule: run_pool_ops.induct)
  case (1 env self w)
  then show ?case by simp
next
  case (2 env ops self w)
  obtain got self1 w1 where g: "get_connection_from_pool env self w = (got, self1, w1)"
    by (cases "get_connection_from_pool env self w")
  obtain gots1 self2 w2 where r: "run_pool_ops env ops self1 w1 = (gots1, self2, w2)"
    by (cases "run_pool_ops env ops self1 w1")
  from get_connection_from_pool_props [OF g] "2.prems"(1)
  have a: "c \<notin> set (connection_pool self1)" and n: "got \<noteq> Some c"
    by auto
  from "2.prems"(2) have o: "Release c \<notin> set ops" by simp
  from "2.IH" [OF g [symmetric] refl a o r] n "2.prems"(3) g r show ?case by auto
next
  case (3 env c' ops self w)
  obtain self1 w1 where g: "return_connection_to_pool env c' self w = (self1, w1)"
    by (cases "return_connection_to_pool env c' self w")
  from "3.prems"(2) have ne: "c' \<noteq> c" and o: "Release c \<notin> set ops" by auto
  from return_connection_to_pool_pool [of env c' self w] g "3.prems"(1) ne
  have a: "c \<notin> set (connection_pool self1)"
    by (auto split: if_splits)
  from "3.IH" [OF g [symmetric] a o] "3.prems"(3) g show ?case by simp
next
  case (4 env f ops self w)
  then show ?case by simp
qed


text \<open>
  C6, as stated, at concrete inputs. A connection whose probe fails is released into an
  empty pool: the pool stays empty and the only thing done to the connection is the
  probe, it is not closed. A healthy connection is released into a pool that already
  holds five: nothing is done at all, neither a probe nor a close.
\<close>

theorem pool_release_dead_not_closed:
  "return_connection_to_pool (demo_env [7] one_row []) 7 demo_operator world0 =
     (demo_operator, \<lparr>backend = 0, trace = [Executed 7 ''SELECT 1'']\<rparr>)
   \<and> Closed 7 \<notin> set (trace (snd
         (return_connection_to_pool (demo_env [7] one_row []) 7 demo_operator world0)))
   \<and> return_connection_to_pool (demo_env [] one_row []) 7
         (demo_operator\<lparr>connection_pool := [1, 2, 3, 4, 5]\<rparr>) world0 =
     (demo_operator\<lparr>connection_pool := [1, 2, 3, 4, 5]\<rparr>, world0)"
  by (simp add: return_connection_to_pool_def probe_def execute_def demo_env_def
      demo_operator_def world0_def)

text \<open>
  C6, amended. For the pool of five of a constructed operator: release first checks that
  the pool holds fewer than five connections and only then probes the connection; when
  both hold the connection is pushed back, otherwise the pool is left as it is; with a
  full pool nothing is done. Release never closes a connection. Over any sequence of
  acquires, releases and changes of the outside world the pool never holds more than five
  connections. After the release of a connection that is not in the pool and whose probe
  fails, no later acquire returns that connection, as long as it is not released again.
\<close>

theorem pool_release_and_bound:
  assumes "max_pool_size self = 5" and "length (connection_pool self) \<le> 5"
  shows "connection_pool (fst (return_connection_to_pool env c self w)) =
           (if length (connection_pool self) < 5 \<and> fst (probe env c w)
            then connection_pool self @ [c] else connection_pool self)
         \<and> (5 \<le> length (connection_pool self) \<longrightarrow>
              snd (return_connection_to_pool env c self w) = w)
         \<and> filter is_Closed (trace (snd (return_connection_to_pool env c self w))) =
             filter is_Closed (trace w)
         \<and> length (connection_pool (fst (snd (run_pool_ops env ops self w)))) \<le> 5
         \<and> (c \<notin> set (connection_pool self) \<and> \<not> fst (probe env c w) \<and>
              Release c \<notin> set ops \<longrightarrow>
              Some c \<notin> set (fst (run_pool_ops env ops
                (fst (return_connection_to_pool env c self w))
                (snd (return_connection_to_pool env c self w)))))"
proof -
  have a: "connection_pool (fst (return_connection_to_pool env c self w)) =
           (if length (connection_pool self) < 5 \<and> fst (probe env c w)
            then connection_pool self @ [c] else connection_pool self)"
    using assms(1) by (simp add: return_connection_to_pool_pool)
  have b: "5 \<le> length (connection_pool self) \<longrightarrow>
      snd (return_connection_to_pool env c self w) = w"
    using assms(1) by (simp add: return_connection_to_pool_def)
  have d: "length (connection_pool (fst (snd (run_pool_ops env ops self w)))) \<le> 5"
  proof -
    obtain gots self' w' where r: "run_pool_ops env ops self w = (gots, self', w')"
      by (cases "run_pool_ops env ops self w")
    from assms have "length (connection_pool self) \<le> max_pool_size self" by simp
    from run_pool_ops_bound [OF this r] assms(1) r show ?thesis by simp
  qed
  have e: "Some c \<notin> set (fst (run_pool_ops env ops
                (fst (return_connection_to_pool env c self w))
                (snd (return_connection_to_pool env c self w))))"
    if h: "c \<notin> set (connection_pool self)" "\<not> fst (probe env c w)" "Release c \<notin> set ops"
  proof -
    let ?self = "fst (return_connection_to_pool env c self w)"
    let ?w = "snd (return_connection_to_pool env c self w)"
    obtain gots self' w' where r: "run_pool_ops env ops ?self ?w = (gots, self', w')"
      by (cases "run_pool_ops env ops ?self ?w")
    from a h have "c \<notin> set (connection_pool ?self)" by simp
    from run_pool_ops_absent [OF this h(3) r] r show ?thesis by simp
  qed
  from a b d e return_connection_to_pool_closed [of env c self w] show ?thesis by blast
qed

theorem pool_release_and_bound_witness:
  "connection_pool (fst (return_connection_to_pool (demo_env [7] one_row []) 7
       (demo_operator\<lparr>connection_pool := [3]\<rparr>) world0)) = [3]
   \<and> length (connection_pool (fst (snd (run_pool_ops (demo_env [7] one_row [])
       [Release 8, Acquire, Outside Suc, Acquire, Acquire]
       (demo_operator\<lparr>connection_pool := [3]\<rparr>) world0)))) \<le> 5
   \<and> Some 7 \<notin> set (fst (run_pool_ops (demo_env [7] one_row [])
       [Release 8, Acquire, Outside Suc, Acquire, Acquire]
       (fst (return_connection_to_pool (demo_env [7] one_row []) 7
          (demo_operator\<lparr>connection_pool := [3]\<rparr>) world0))
       (snd (return_connection_to_pool (demo_env [7] one_row []) 7
          (demo_operator\<lparr>connection_pool := [3]\<rparr>) world0))))"
proof -
  let ?self = "demo_operator\<lparr>connection_pool := [3]\<rparr>"
  let ?env = "demo_env [7] one_row []"
  have m: "max_pool_size ?self = 5" and l: "length (connection_pool ?self) \<le> 5"
    by (simp_all add: demo_operator_def)
  have p: "\<not> fst (probe ?env 7 world0)"
    by (simp add: probe_def execute_def demo_env_def)
  have n: "7 \<notin> set (connection_pool ?self)"
    by simp
  have o: "Release 7 \<notin> set [Release 8, Acquire, Outside Suc, Acquire, Acquire :: nat pool_op]"
    by simp
  from pool_release_and_bound [OF m l, of ?env 7 world0
      "[Release 8, Acquire, Outside Suc, Acquire, Acquire]"] p n o
  show ?thesis by simp
qed

section \<open>Properties of the scoped connections\<close>

lemma str_int_300: "str_int 300 = ''300''"
  by code_simp

lemma sap_scope_closes:
  assumes "sap_is_configured (sapo_credentials self)" and "connect env w = (Inr c, w1)"
  shows "\<exists>r w2. body c w1 = (r, w2) \<and>
           sap_create_connection env self body w = (r, close_conn env c w2)"
  using assms by (cases "body c w1") (simp add: sap_create_connection_def)


text \<open>
  C5 at a concrete input: \<open>SnowflakeOperator.execute_query\<close> on a statement that the
  server rejects. The connection 0 is opened, the two statements are submitted on it,
  the error leaves the scope, and the connection is never closed. On a statement that
  succeeds the same scope closes the connection.
\<close>

theorem snowflake_scope_leaks_on_error:
  "snowflake_execute_query (demo_env [] no_such_table []) None demo_snowflake
       ''SELECT * FROM missing'' None world0 =
     (Inl (InvalidGeneratedCode
        ''Query execution failed: Snowflake error: Object MISSING does not exist''
        (Some ''SELECT * FROM missing'')
        (Some (InvalidGeneratedCode ''Snowflake error: Object MISSING does not exist''
           (Some ''SELECT * FROM missing'') None None))
        None),
      \<lparr>backend = 1,
       trace = [Connected 0,
                Executed 0 ''ALTER SESSION SET STATEMENT_TIMEOUT_IN_SECONDS = 300'',
                Executed 0 ''SELECT * FROM missing'']\<rparr>)
   \<and> snowflake_execute_query (demo_env [] no_such_table []) None demo_snowflake
       ''SELECT 1'' None world0 =
     (Inr [[Some ''1'']],
      \<lparr>backend = 1,
       trace = [Connected 0,
                Executed 0 ''ALTER SESSION SET STATEMENT_TIMEOUT_IN_SECONDS = 300'',
                Executed 0 ''SELECT 1'', Closed 0]\<rparr>)"
  by (simp add: snowflake_execute_query_def snowflake_create_connection_def
      snowflake_is_configured_def get_private_key_def demo_snowflake_def demo_env_def
      no_such_table_def one_row_def connect_def execute_def close_conn_def world0_def
      str_int_300)

section \<open>Properties of the constructors and the factory\<close>

lemma checked_constructors:
  "(\<not> snowflake_is_configured sc \<longrightarrow>
      SnowflakeOperator_init sc t =
        Inl (ValueError ''Snowflake credentials not properly configured''))
   \<and> (\<not> sap_is_configured pc \<longrightarrow>
      SAPDatasphereOperator_init pc t =
        Inl (ValueError ''SAP Data Sphere credentials not properly configured''))
   \<and> (\<not> sqlserver_is_configured qc \<longrightarrow>
      (\<exists>e. SQLServerOperator_init h qc t = Inl e))"
  by (simp add: SnowflakeOperator_init_def SAPDatasphereOperator_init_def
      SQLServerOperator_init_def)

lemma factory_falls_back:
  "(infra_database a = ''snowflake'' \<and>
      SnowflakeCredentials_init (src_snowflake src) = Inr sc \<and> \<not> snowflake_is_configured sc
      \<longrightarrow> get_database_operator isalnum src a = Inr NoDatabaseOperator)
   \<and> (infra_database a = ''sap'' \<and>
      SAPDatasphereCredentials_init (src_sap src) = Inr pc \<and> \<not> sap_is_configured pc
      \<longrightarrow> get_database_operator isalnum src a = Inr NoDatabaseOperator)
   \<and> (infra_database a = ''sqlserver'' \<and>
      SQLServerCredentials_init isalnum (src_sqlserver src) = Inr qc \<and>
      \<not> sqlserver_is_configured qc
      \<longrightarrow> get_database_operator isalnum src a = Inr NoDatabaseOperator)
   \<and> (infra_database a = ''bigquery'' \<and>
      GoogleCredentialsBQ_init (src_bigquery src) = Inr bc \<and>
      \<not> (service_account_key bc \<noteq> [] \<and> truthy (bq_db_schema bc))
      \<longrightarrow> get_database_operator isalnum src a = Inr NoDatabaseOperator)"
  by (simp add: get_database_operator_def or_no_database_def)

text \<open>
  C3 at concrete inputs. The settings with an empty host give credentials that are not
  configured, and \<open>SQLServerOperatorPytds\<close> is constructed from them without any error.
  \<open>BigQueryOperator\<close> is constructed without any error from credentials that have no
  schema, which the factory's own test of BigQuery credentials rejects.
\<close>

theorem unchecked_constructors:
  "SQLServerCredentials_init ascii_isalnum unconfigured_settings = Inr unconfigured_credentials
   \<and> \<not> sqlserver_is_configured unconfigured_credentials
   \<and> SQLServerOperatorPytds_init unconfigured_credentials 300 =
       Inr \<lparr>pto_credentials = unconfigured_credentials, pto_default_timeout = 300\<rparr>
   \<and> \<not> (service_account_key bq_without_schema \<noteq> [] \<and> truthy (bq_db_schema bq_without_schema))
   \<and> BigQueryOperator_init bq_without_schema 300 =
       Inr \<lparr>bqo_credentials = bq_without_schema, bqo_database = ''acme-analytics'',
            bqo_default_timeout = 300\<rparr>"
  by (simp add: SQLServerCredentials_init_def unconfigured_settings_def demo_settings_def
      validate_schema_name_def ascii_isalnum_def unconfigured_credentials_def
      sqlserver_is_configured_def SQLServerOperatorPytds_init_def bq_without_schema_def
      BigQueryOperator_init_def)

section \<open>Properties of query execution\<close>

lemma upt_2: "[0 ..< 2] = [0, 1::nat]"
  by (simp add: upt_rec)

lemma upt_3: "[0 ..< 3] = [0, 1, 2::nat]"
  by (simp add: upt_rec)


lemma retried_not_transient:
  "0 < max_attempts \<Longrightarrow> func w = (Inl e, w') \<Longrightarrow> \<not> default_transient_errors True e \<Longrightarrow>
   retried max_attempts d func w = (Inl e, w')"
proof -
  assume m: "0 < max_attempts" and f: "func w = (Inl e, w')"
    and t: "\<not> default_transient_errors True e"
  from m obtain n where n: "nat max_attempts = Suc n"
    by (cases "nat max_attempts") auto
  have "[0 ..< nat max_attempts] = 0 # [1 ..< Suc n]"
    by (simp add: n upt_rec)
  with f t show ?thesis
    by (simp add: retried_def retry_on_transient_error_def)
qed

text \<open>A statement that the server rejects with an error outside the transient set is
  submitted once by the retried step.\<close>

lemma rejected_statement_submitted_once:
  assumes "env_execute env c query (backend w) = (Inl e, b)"
    and "\<not> default_transient_errors True e"
  shows "execute_query_with_retry env c query w =
           (Inl e, w\<lparr>backend := b, trace := trace w @ [Executed c query]\<rparr>)"
proof -
  from assms(1) have "execute env c query w =
      (Inl e, w\<lparr>backend := b, trace := trace w @ [Executed c query]\<rparr>)"
    by (simp add: execute_def)
  from retried_not_transient [of 2 "execute env c query" w e _ "1 / 2", OF _ this assms(2)]
  show ?thesis
    by (simp add: execute_query_with_retry_def)
qed

text \<open>
  C4 at a concrete input: the statement \<open>SELEC 1\<close>, which the server rejects with a
  \<open>ProgrammingError\<close>. Both operators submit it once. The error of
  \<open>SQLServerOperatorPytds.execute_query\<close> has the cause but no query text: its \<open>code\<close>
  is \<open>None\<close> and its message is made of the server's message only. The error of
  \<open>SQLServerOperator.execute_query\<close> carries the query and the cause.
\<close>

theorem pytds_query_error_lacks_query:
  "pytds_execute_query (demo_env [] syntax_checker []) demo_pytds ''SELEC 1'' None world0 =
     (Inl (InvalidGeneratedCode ''Failed to execute SQL query: Incorrect syntax near SELEC''
             None None (Some (ProgrammingError ''Incorrect syntax near SELEC''))),
      \<lparr>backend = 1, trace = [Connected 0, Executed 0 ''SELEC 1'', Closed 0]\<rparr>)
   \<and> sqlserver_execute_query (demo_env [] syntax_checker []) ''SELEC 1'' None
       demo_operator world0 =
     (Inl (InvalidGeneratedCode ''SQL Server error: Incorrect syntax near SELEC''
             (Some ''SELEC 1'') (Some (ProgrammingError ''Incorrect syntax near SELEC'')) None),
      demo_operator\<lparr>connection_pool := [0]\<rparr>,
      \<lparr>backend = 1, trace = [Connected 0, Executed 0 ''SELEC 1'', Executed 0 ''SELECT 1'']\<rparr>)"
proof -
  let ?env = "demo_env [] syntax_checker []"
  have a: "pytds_execute_query ?env demo_pytds ''SELEC 1'' None world0 =
     (Inl (InvalidGeneratedCode ''Failed to execute SQL query: Incorrect syntax near SELEC''
             None None (Some (ProgrammingError ''Incorrect syntax near SELEC''))),
      \<lparr>backend = 1, trace = [Connected 0, Executed 0 ''SELEC 1'', Closed 0]\<rparr>)"
    by (simp add: pytds_execute_query_def pytds_create_connection_def demo_pytds_def
        demo_credentials_def sqlserver_is_configured_def connect_def execute_def
        close_conn_def demo_env_def world0_def syntax_checker_def
        execute_query_with_retry_def retried_def retry_on_transient_error_def upt_2)
  have g: "get_connection_from_pool ?env demo_operator world0 = (None, demo_operator, world0)"
    by (simp add: get_connection_from_pool.simps demo_operator_def)
  have b: "sqlserver_execute_query ?env ''SELEC 1'' None demo_operator world0 =
     (Inl (InvalidGeneratedCode ''SQL Server error: Incorrect syntax near SELEC''
             (Some ''SELEC 1'') (Some (ProgrammingError ''Incorrect syntax near SELEC'')) None),
      demo_operator\<lparr>connection_pool := [0]\<rparr>,
      \<lparr>backend = 1, trace = [Connected 0, Executed 0 ''SELEC 1'', Executed 0 ''SELECT 1'']\<rparr>)"
    by (simp add: sqlserver_execute_query_def sqlserver_create_connection_def g)
      (simp add: create_new_connection_def return_connection_to_pool_def probe_def
        sqlserver_is_configured_def connect_def execute_def
        execute_query_with_retry_def retried_def retry_on_transient_error_def upt_2 upt_3
        demo_operator_def demo_credentials_def demo_env_def world0_def
        syntax_checker_def one_row_def)
  from a b show ?thesis by simp
qed

section \<open>Properties of data extraction\<close>




lemma close_conn_registered:
  "filter is_Registered (trace (close_conn env c w)) = filter is_Registered (trace w)"
  by (simp add: close_conn_def)


















lemma str_int_5000: "str_int 5000 = ''5000''"
  by code_simp

lemmas run_defs =
  sqlserver_get_data_def lru_cache_call_def await_get_data_def empty_cache_def
  sqlserver_get_data_body_def sqlserver_create_connection_def create_new_connection_def
  return_connection_to_pool_def probe_def sqlserver_is_configured_def connect_def
  execute_def close_conn_def register_dataset_def sqlserver_load_table_def
  sqlserver_table_query_def has_description_def columns_of_def
  retried_def retry_on_transient_error_def upt_2 upt_3 str_int_5000
  pytds_get_data_def get_table_as_dataframe_def pytds_execute_query_def
  pytds_create_connection_def execute_query_with_retry_def pytds_table_query_def
  dataset_of_records_def
  demo_operator_def demo_pytds_def demo_credentials_def demo_env_def world0_def one_row_def





text \<open>
  C2 at a concrete input: \<open>get_data("t")\<close> twice on the same operator, each call
  awaited. \<open>SQLServerOperatorPytds.get_data\<close> has no cache: the second call connects,
  queries and registers again. \<open>SQLServerOperator.get_data\<close> is cached as a coroutine
  object: the second call gets the object that was already awaited, and awaiting it
  raises \<open>RuntimeError\<close> instead of returning the names; nothing is queried or registered.
\<close>

theorem get_data_called_twice:
  "pytds_get_data (demo_env [] one_row []) demo_pytds [''t''] True 5000 None world0 =
     ([''t''],
      \<lparr>backend = 1,
       trace = [Connected 0, Executed 0 ''SELECT TOP 5000 * FROM [dbo].[t]'', Closed 0,
                Registered ''t'']\<rparr>)
   \<and> pytds_get_data (demo_env [] one_row []) demo_pytds [''t''] True 5000 None
       \<lparr>backend = 1,
        trace = [Connected 0, Executed 0 ''SELECT TOP 5000 * FROM [dbo].[t]'', Closed 0,
                 Registered ''t'']\<rparr> =
     ([''t''],
      \<lparr>backend = 2,
       trace = [Connected 0, Executed 0 ''SELECT TOP 5000 * FROM [dbo].[t]'', Closed 0,
                Registered ''t'',
                Connected 1, Executed 1 ''SELECT TOP 5000 * FROM [dbo].[t]'', Closed 1,
                Registered ''t'']\<rparr>)
   \<and> sqlserver_get_data (demo_env [] one_row []) [''t''] 5000 None empty_cache
       demo_operator world0 =
     (Inr [''t''],
      \<lparr>cached = [(\<lparr>arg_table_names = [''t''], arg_sample_size = 5000, arg_timeout = None\<rparr>,
                  \<lparr>co_id = 0,
                   co_args = \<lparr>arg_table_names = [''t''], arg_sample_size = 5000,
                              arg_timeout = None\<rparr>\<rparr>)],
       created = 1, awaited = [0]\<rparr>,
      demo_operator\<lparr>connection_pool := [0]\<rparr>,
      \<lparr>backend = 1,
       trace = [Connected 0, Executed 0 ''SELECT TOP 5000 * FROM [sales].[dbo].[t]'',
                Registered ''t'', Executed 0 ''SELECT 1'']\<rparr>)
   \<and> sqlserver_get_data (demo_env [] one_row []) [''t''] 5000 None
       \<lparr>cached = [(\<lparr>arg_table_names = [''t''], arg_sample_size = 5000, arg_timeout = None\<rparr>,
                   \<lparr>co_id = 0,
                    co_args = \<lparr>arg_table_names = [''t''], arg_sample_size = 5000,
                               arg_timeout = None\<rparr>\<rparr>)],
        created = 1, awaited = [0]\<rparr>
       (demo_operator\<lparr>connection_pool := [0]\<rparr>)
       \<lparr>backend = 1,
        trace = [Connected 0, Executed 0 ''SELECT TOP 5000 * FROM [sales].[dbo].[t]'',
                 Registered ''t'', Executed 0 ''SELECT 1'']\<rparr> =
     (Inl (RuntimeError ''cannot reuse already awaited coroutine''),
      \<lparr>cached = [(\<lparr>arg_table_names = [''t''], arg_sample_size = 5000, arg_timeout = None\<rparr>,
                  \<lparr>co_id = 0,
                   co_args = \<lparr>arg_table_names = [''t''], arg_sample_size = 5000,
                              arg_timeout = None\<rparr>\<rparr>)],
       created = 1, awaited = [0]\<rparr>,
      demo_operator\<lparr>connection_pool := [0]\<rparr>,
      \<lparr>backend = 1,
       trace = [Connected 0, Executed 0 ''SELECT TOP 5000 * FROM [sales].[dbo].[t]'',
                Registered ''t'', Executed 0 ''SELECT 1'']\<rparr>)"
proof -
  have p1: "pytds_get_data (demo_env [] one_row []) demo_pytds [''t''] True 5000 None world0 =
     ([''t''],
      \<lparr>backend = 1,
       trace = [Connected 0, Executed 0 ''SELECT TOP 5000 * FROM [dbo].[t]'', Closed 0,
                Registered ''t'']\<rparr>)"
    by (simp add: run_defs)
  have p2: "pytds_get_data (demo_env [] one_row []) demo_pytds [''t''] True 5000 None
       \<lparr>backend = 1,
        trace = [Connected 0, Executed 0 ''SELECT TOP 5000 * FROM [dbo].[t]'', Closed 0,
                 Registered ''t'']\<rparr> =
     ([''t''],
      \<lparr>backend = 2,
       trace = [Connected 0, Executed 0 ''SELECT TOP 5000 * FROM [dbo].[t]'', Closed 0,
                Registered ''t'',
                Connected 1, Executed 1 ''SELECT TOP 5000 * FROM [dbo].[t]'', Closed 1,
                Registered ''t'']\<rparr>)"
    by (simp add: run_defs)
  have g: "get_connection_from_pool (demo_env [] one_row []) demo_operator world0 =
      (None, demo_operator, world0)"
    by (simp add: get_connection_from_pool.simps demo_operator_def)
  have body: "sqlserver_get_data_body (demo_env [] one_row []) [''t''] 5000 None
        demo_operator world0 =
      ([''t''], demo_operator\<lparr>connection_pool := [0]\<rparr>,
       \<lparr>backend = 1,
        trace = [Connected 0, Executed 0 ''SELECT TOP 5000 * FROM [sales].[dbo].[t]'',
                 Registered ''t'', Executed 0 ''SELECT 1'']\<rparr>)"
    by (simp add: sqlserver_get_data_body_def sqlserver_create_connection_def g)
      (simp add: run_defs)
  have s1: "sqlserver_get_data (demo_env [] one_row []) [''t''] 5000 None empty_cache
       demo_operator world0 =
     (Inr [''t''],
      \<lparr>cached = [(\<lparr>arg_table_names = [''t''], arg_sample_size = 5000, arg_timeout = None\<rparr>,
                  \<lparr>co_id = 0,
                   co_args = \<lparr>arg_table_names = [''t''], arg_sample_size = 5000,
                              arg_timeout = None\<rparr>\<rparr>)],
       created = 1, awaited = [0]\<rparr>,
      demo_operator\<lparr>connection_pool := [0]\<rparr>,
      \<lparr>backend = 1,
       trace = [Connected 0, Executed 0 ''SELECT TOP 5000 * FROM [sales].[dbo].[t]'',
                Registered ''t'', Executed 0 ''SELECT 1'']\<rparr>)"
    by (simp add: sqlserver_get_data_def lru_cache_call_def await_get_data_def
        empty_cache_def Let_def body)
  have s2: "sqlserver_get_data (demo_env [] one_row []) [''t''] 5000 None
       \<lparr>cached = [(\<lparr>arg_table_names = [''t''], arg_sample_size = 5000, arg_timeout = None\<rparr>,
                   \<lparr>co_id = 0,
                    co_args = \<lparr>arg_table_names = [''t''], arg_sample_size = 5000,
                               arg_timeout = None\<rparr>\<rparr>)],
        created = 1, awaited = [0]\<rparr>
       (demo_operator\<lparr>connection_pool := [0]\<rparr>)
       \<lparr>backend = 1,
        trace = [Connected 0, Executed 0 ''SELECT TOP 5000 * FROM [sales].[dbo].[t]'',
                 Registered ''t'', Executed 0 ''SELECT 1'']\<rparr> =
     (Inl (RuntimeError ''cannot reuse already awaited coroutine''),
      \<lparr>cached = [(\<lparr>arg_table_names = [''t''], arg_sample_size = 5000, arg_timeout = None\<rparr>,
                  \<lparr>co_id = 0,
                   co_args = \<lparr>arg_table_names = [''t''], arg_sample_size = 5000,
                              arg_timeout = None\<rparr>\<rparr>)],
       created = 1, awaited = [0]\<rparr>,
      demo_operator\<lparr>connection_pool := [0]\<rparr>,
      \<lparr>backend = 1,
       trace = [Connected 0, Executed 0 ''SELECT TOP 5000 * FROM [sales].[dbo].[t]'',
                Registered ''t'', Executed 0 ''SELECT 1'']\<rparr>)"
    by (simp add: sqlserver_get_data_def lru_cache_call_def await_get_data_def)
  from p1 p2 s1 s2 show ?thesis by blast
qed

section \<open>Properties of the table listings\<close>

lemma select_tables_sorted:
  "sorted (map key (select_tables catalog schema types key)) \<and>
   set (select_tables catalog schema types key) =
     {t \<in> set catalog. ti_schema t = schema \<and> ti_type t \<in> set types}"
  by (auto simp: select_tables_def)


















end
